theory Spec2Isabelle
  imports Complex_Main "HOL-Library.Word"
begin

section \<open>Constants, tables and state of the filter engine\<close>

text \<open>
  The filter engine (filter.c, class \<open>Filter\<close>) and the resampling pipeline
  (Audio.cpp, class \<open>Audio\<close>) are embedded function by function. C \<open>float\<close>
  values are idealised as reals; \<open>uint8_t\<close> indices are 8-bit words; fixed-size C
  arrays indexed by channel or sample are total functions from the index, of which only
  the indices below the declared size are meaningful.

  Float arithmetic is real arithmetic, and a literal inside an arithmetic expression is
  the decimal it spells. A float literal that the code assigns to a
  coefficient or compares with a value it has read is taken at its binary32 value, since
  that value is what the program stores or tests: \<open>1.30899581f\<close> is
  \<open>10980653 / 2^23\<close>, \<open>0.002f\<close> is \<open>8589935 / 2^32\<close> and \<open>0.998f\<close> is
  \<open>8371831 / 2^23\<close>.

  The header that declares the compile-time constants is not part of the sources, so the
  constants are parameters (record \<open>config\<close>). The channel count is fixed by the
  code itself (\<open>float destvoct[6]\<close>, \<open>j = channel_num + 6\<close>).
\<close>

type_synonym u8 = "8 word"

definition NUM_CHANNELS :: nat where
  "NUM_CHANNELS = 6"

record config =
  NUM_SCALES :: nat
  NUM_FILTS :: nat
  NUM_SCALENOTES :: nat
  NUM_SCALEBANKS :: nat
  NUM_BANKNOTES :: nat
  NUM_SAMPLES :: nat
  CROSSFADE_MIN :: real
  CROSSFADE_MAX :: real
  CROSSFADE_WIDTH :: real
  INPUT_LED_CLIP_LEVEL :: real
  CLIP_LEVEL :: real
  MAX_12BIT :: real
  MIN_12BIT :: real

text \<open>The read-only tables: \<open>exp_4096\<close>, \<open>log_4096\<close>, \<open>twopass_calibration\<close>
  (declared \<open>extern\<close>) and the preset catalogue \<open>scales.presets\<close>.\<close>

record preset =
  c_maxq :: "nat \<Rightarrow> real"
  c_bpre_hi :: "nat \<Rightarrow> real"
  c_bpre_lo :: "nat \<Rightarrow> real"

record tables =
  exp_4096 :: "nat \<Rightarrow> real"
  log_4096 :: "nat \<Rightarrow> real"
  twopass_calibration :: "nat \<Rightarrow> nat"
  presets :: "nat \<Rightarrow> preset"

datatype FilterTypes = MAXQ | BPRE

datatype FilterModes = ONEPASS | TWOPASS

text \<open>A coefficient pointer (\<open>c_hiq[i]\<close>, \<open>c_loq[i]\<close>, \<open>bpretuning[i]\<close>) names the
  table it points to; the user scale is mutable state of the filter, the presets are not.\<close>

datatype coef_ptr =
    UserScaleBank
  | PresetMaxq nat
  | PresetBpreHi nat
  | PresetBpreLo nat

record IO =
  CHANGED_BANK :: bool
  NEW_BANK :: u8
  LOCK_ON :: "nat \<Rightarrow> bool"
  USER_SCALE_CHANGED :: bool
  USER_SCALE :: "nat \<Rightarrow> real"
  INPUT_CLIP :: bool
  FREQSCALE :: real
  GLIDE_SWITCH :: bool
  io_in :: "nat \<Rightarrow> nat \<Rightarrow> int"
  io_out :: "nat \<Rightarrow> nat \<Rightarrow> real"
  channelLevel :: "nat \<Rightarrow> real"

text \<open>\<open>buf\<close> and \<open>buf_a\<close> are the history arrays
  \<open>float [NUM_CHANNELS][NUM_SCALES][NUM_FILTS][3]\<close>, kept as flat stores from the
  float offset to the value, because \<open>process_scale_bank\<close> walks \<open>buf[i]\<close>
  through a \<open>float *\<close>. Their declaration is in the missing header; the index order
  is that of the accesses \<open>buf[channel_num][scale_num][filter_num][k]\<close> with \<open>k\<close>
  from 0 to 2.\<close>

record Filter =
  scale_bank :: "nat \<Rightarrow> u8"
  old_scale_bank :: "nat \<Rightarrow> u8"
  scale :: "nat \<Rightarrow> u8"
  note_ch :: "nat \<Rightarrow> u8"
  filter_type :: FilterTypes
  new_filter_type :: FilterTypes
  filter_type_changed :: bool
  filter_mode :: FilterModes
  user_scale_bank :: "nat \<Rightarrow> real"
  buf :: "nat \<Rightarrow> real"
  buf_a :: "nat \<Rightarrow> real"
  c_hiq :: "nat \<Rightarrow> coef_ptr"
  c_loq :: "nat \<Rightarrow> coef_ptr"
  bpretuning :: "nat \<Rightarrow> coef_ptr"
  filter_out :: "nat \<Rightarrow> nat \<Rightarrow> real"

text \<open>The collaborators the filter reads and writes through pointers (\<open>q\<close>,
  \<open>tuning\<close>, \<open>rotation\<close>, \<open>envelope\<close>, \<open>levels\<close>): only the arrays the
  filter touches. The member arrays \<open>qc\<close>, \<open>qval_a\<close> and \<open>qval_b\<close> of the
  filter are written before they are read in every channel iteration and read nowhere
  else in filter.c; they are kept as local values.\<close>

record Q =
  qval :: "nat \<Rightarrow> nat"

record Tuning =
  freq_nudge :: "nat \<Rightarrow> real"
  freq_shift :: "nat \<Rightarrow> real"

record Rotation =
  motion_morphpos :: "nat \<Rightarrow> real"
  motion_fadeto_note :: "nat \<Rightarrow> u8"
  motion_fadeto_scale :: "nat \<Rightarrow> u8"

record Envelope =
  envout_preload_voct :: "nat \<Rightarrow> real"
  envout_preload :: "nat \<Rightarrow> real"

record Levels =
  channel_level :: "nat \<Rightarrow> real"

record world =
  io :: IO
  flt :: Filter
  q :: Q
  tuning :: Tuning
  rotation :: Rotation
  envelope :: Envelope
  levels :: Levels

text \<open>\<open>q->update()\<close> and \<open>rotation->update_morph()\<close> are defined outside the
  sources; each is a parameter that yields the new state of its own object.\<close>

record externals =
  run_q_update :: "world \<Rightarrow> Q"
  run_update_morph :: "world \<Rightarrow> Rotation"

text \<open>A counting loop \<open>for (i = 0; i < n; i++) body\<close>.\<close>

primrec for_loop :: "nat \<Rightarrow> (nat \<Rightarrow> 's \<Rightarrow> 's) \<Rightarrow> 's \<Rightarrow> 's" where
  "for_loop 0 body s = s"
| "for_loop (Suc n) body s = body n (for_loop n body s)"

text \<open>Float offset of \<open>buf[ch][sc][n][k]\<close> from the start of the array.\<close>

definition hist_addr :: "config \<Rightarrow> nat \<Rightarrow> nat \<Rightarrow> nat \<Rightarrow> nat \<Rightarrow> nat" where
  "hist_addr K ch sc n k = ((ch * NUM_SCALES K + sc) * NUM_FILTS K + n) * 3 + k"

subsection \<open>Bank change, user scale, pending filter type\<close>

definition process_bank_change :: "IO \<Rightarrow> Filter \<Rightarrow> Filter" where
  "process_bank_change ioc f =
     (if CHANGED_BANK ioc
      then for_loop NUM_CHANNELS
             (\<lambda>i f. if \<not> LOCK_ON ioc i
                    then f\<lparr>scale_bank := (scale_bank f)(i := NEW_BANK ioc)\<rparr>
                    else f) f
      else f)"


definition change_filter_type :: "FilterTypes \<Rightarrow> Filter \<Rightarrow> Filter" where
  "change_filter_type newtype f =
     (if new_filter_type f \<noteq> newtype
      then f\<lparr>filter_type_changed := True, new_filter_type := newtype\<rparr>
      else f)"

subsection \<open>\<open>Filter::process_scale_bank\<close>\<close>

text \<open>The clearing loop: \<open>ff\<close> is the float offset of \<open>buf[i]\<close>, \<open>n\<close> is
  \<open>NUM_SCALES * NUM_FILTS\<close>; iteration \<open>j\<close> stores zero at \<open>ff+j\<close>, \<open>ff+j+1\<close>
  and \<open>ff+j+2\<close>.\<close>

definition clear_hist :: "nat \<Rightarrow> nat \<Rightarrow> (nat \<Rightarrow> real) \<Rightarrow> (nat \<Rightarrow> real)" where
  "clear_hist ff n m =
     for_loop n (\<lambda>j m. m(ff + j := 0, ff + j + 1 := 0, ff + j + 2 := 0)) m"

definition clamp_indices :: "config \<Rightarrow> nat \<Rightarrow> Filter \<Rightarrow> Filter" where
  "clamp_indices K i f0 =
     (let f1 = (if int (NUM_SCALEBANKS K) \<le> uint (scale_bank f0 i) \<and> scale_bank f0 i \<noteq> 0xFF
                then f0\<lparr>scale_bank := (scale_bank f0)(i := word_of_int (int (NUM_SCALEBANKS K) - 1))\<rparr>
                else f0)
      in if int (NUM_SCALES K) \<le> uint (scale f1 i)
         then f1\<lparr>scale := (scale f1)(i := word_of_int (int (NUM_SCALES K) - 1))\<rparr>
         else f1)"

definition select_tables :: "config \<Rightarrow> nat \<Rightarrow> Filter \<Rightarrow> Filter" where
  "select_tables K i f =
     (if filter_type f = MAXQ
      then (if uint (scale_bank f i) = int (NUM_SCALEBANKS K) - 1
            then f\<lparr>c_hiq := (c_hiq f)(i := UserScaleBank)\<rparr>
            else f\<lparr>c_hiq := (c_hiq f)(i := PresetMaxq (unat (scale_bank f i)))\<rparr>)
      else if filter_mode f \<noteq> TWOPASS \<and> filter_type f = BPRE
      then f\<lparr>c_hiq := (c_hiq f)(i := PresetBpreHi (unat (scale_bank f i))),
              c_loq := (c_loq f)(i := PresetBpreLo (unat (scale_bank f i))),
              bpretuning := (bpretuning f)(i := PresetMaxq (unat (scale_bank f i)))\<rparr>
      else f)"

text \<open>One iteration of the channel loop: the two clamps, then, when the bank differs from
  the last resolved one, the filter type changed or the user scale changed, the history
  reset and the choice of the coefficient tables.\<close>

definition process_scale_bank_ch :: "config \<Rightarrow> IO \<Rightarrow> nat \<Rightarrow> Filter \<Rightarrow> Filter" where
  "process_scale_bank_ch K ioc i f0 =
     (let f2 = clamp_indices K i f0
      in if scale_bank f2 i \<noteq> old_scale_bank f2 i \<or> filter_type_changed f2 \<or> USER_SCALE_CHANGED ioc
         then
           (let f3 = f2\<lparr>old_scale_bank := (old_scale_bank f2)(i := scale_bank f2 i)\<rparr>;
                f4 = f3\<lparr>buf := clear_hist (hist_addr K i 0 0 0) (NUM_SCALES K * NUM_FILTS K) (buf f3)\<rparr>
            in select_tables K i f4)
         else f2)"

definition process_scale_bank :: "config \<Rightarrow> IO \<Rightarrow> Filter \<Rightarrow> Filter" where
  "process_scale_bank K ioc f = for_loop NUM_CHANNELS (process_scale_bank_ch K ioc) f"

subsection \<open>Coefficients\<close>

text \<open>Reading a float through a coefficient pointer at an element offset; \<open>usb\<close> is
  the current content of \<open>user_scale_bank\<close>.\<close>

definition table_at :: "tables \<Rightarrow> (nat \<Rightarrow> real) \<Rightarrow> coef_ptr \<Rightarrow> nat \<Rightarrow> real" where
  "table_at T usb p k =
     (case p of
        UserScaleBank \<Rightarrow> usb k
      | PresetMaxq b \<Rightarrow> c_maxq (presets T b) k
      | PresetBpreHi b \<Rightarrow> c_bpre_hi (presets T b) k
      | PresetBpreLo b \<Rightarrow> c_bpre_lo (presets T b) k)"

text \<open>The cast \<open>(uint32_t)x\<close> of a non-negative float drops the fraction.\<close>

definition to_uint32 :: "real \<Rightarrow> nat" where
  "to_uint32 x = nat \<lfloor>x\<rfloor>"

record coefs =
  c0_a :: real
  c0 :: real
  c1 :: real
  c2_a :: real
  c2 :: real
  ratio_a :: real
  ratio_b :: real

text \<open>The value of the literal \<open>1.30899581f\<close> (\<open>//hard limit at 20k\<close>): the
  binary32 number nearest to the decimal, about \<open>1.3089958429\<close>.\<close>

definition hard_limit :: real where
  "hard_limit = 10980653 / 8388608"

text \<open>The frequency coefficient of the two-pass and the one-pass filter for a channel at a
  scale and note: table value, times nudge and shift, times \<open>FREQSCALE\<close>, limited at
  \<open>1.30899581f\<close>. The source writes these lines out three times (the
  morph-destination pass of \<open>filter_twopass\<close> and \<open>filter_onepass\<close> multiply by
  the nudge and by the shift one after the other, which is the same product over the
  reals).\<close>

definition freq_coef :: "config \<Rightarrow> tables \<Rightarrow> world \<Rightarrow> nat \<Rightarrow> u8 \<Rightarrow> u8 \<Rightarrow> real" where
  "freq_coef K T w ch scale_num filter_num =
     (let t = table_at T (user_scale_bank (flt w)) (c_hiq (flt w) ch)
                (unat scale_num * NUM_SCALENOTES K + unat filter_num);
          t1 = t * (freq_nudge (tuning w) ch * freq_shift (tuning w) ch);
          t2 = t1 * FREQSCALE (io w)
      in if t2 > hard_limit then hard_limit else t2)"

text \<open>\<open>filter_twopass\<close>, the coefficients of a channel's source pass. The second
  test of \<open>qval_b\<close> (\<open>else if (qc >= 3900.0f)\<close>) holds whenever the first fails.\<close>

definition twopass_coefs :: "config \<Rightarrow> tables \<Rightarrow> world \<Rightarrow> nat \<Rightarrow> coefs" where
  "twopass_coefs K T w ch =
     (let qc = real (qval (q w) ch);
          qval_a = (if qc * 2 > 4095 then 4095 else qc * 2);
          qval_b = (if qc < 3900 then 1000 else 1000 + (qc - 3900) * 15);
          c0_a' = 1 - exp_4096 T (to_uint32 (qval_a / 1.4) + 200) / (10 / FREQSCALE (io w));
          c0' = 1 - exp_4096 T (to_uint32 (qval_b / 1.4) + 200) / (10 / FREQSCALE (io w));
          c1' = freq_coef K T w ch (scale (flt w) ch) (note_ch (flt w) ch);
          ratio_a' = (if qc < CROSSFADE_MIN K then 1
                      else if qc > CROSSFADE_MAX K then 0
                      else 1 - (qc - CROSSFADE_MIN K) / CROSSFADE_WIDTH K);
          ratio_b' = (1 - ratio_a')
                       * (43801543.68 / real (twopass_calibration T (to_uint32 (qval_b - 900))))
      in \<lparr>c0_a = c0_a', c0 = c0', c1 = c1',
          c2_a = (0.003 * c1') - (0.1 * c0_a') + 0.102,
          c2 = ((0.003 * c1') - (0.1 * c0') + 0.102) * ratio_b',
          ratio_a = ratio_a', ratio_b = ratio_b'\<rparr>)"

text \<open>The coefficients of the morph destination: \<open>c1\<close>, \<open>c2_a\<close> and \<open>c2\<close> are
  recomputed, the others are those of the source pass.\<close>

definition twopass_dest_coefs :: "config \<Rightarrow> tables \<Rightarrow> world \<Rightarrow> nat \<Rightarrow> coefs \<Rightarrow> coefs" where
  "twopass_dest_coefs K T w ch c =
     (let c1' = freq_coef K T w ch (motion_fadeto_scale (rotation w) ch)
                  (motion_fadeto_note (rotation w) ch)
      in c\<lparr>c1 := c1',
           c2_a := (0.003 * c1') - (0.1 * c0_a c) + 0.102,
           c2 := ((0.003 * c1') - (0.1 * c0 c) + 0.102) * ratio_b c\<rparr>)"

subsection \<open>\<open>Filter::filter_twopass\<close>\<close>

text \<open>The input overload test made on a sample of the input stream.\<close>

definition flag_clip :: "config \<Rightarrow> int \<Rightarrow> world \<Rightarrow> world" where
  "flag_clip K x w =
     (if real_of_int x \<ge> INPUT_LED_CLIP_LEVEL K then w\<lparr>io := (io w)\<lparr>INPUT_CLIP := True\<rparr>\<rparr> else w)"

text \<open>One sample through both passes; \<open>A\<close> is the offset of the history vector
  \<open>[channel_num][scale_num][filter_num]\<close>, the same in \<open>buf_a\<close> and \<open>buf\<close>,
  \<open>j\<close> the row of \<open>filter_out\<close>.\<close>

definition twopass_sample :: "coefs \<Rightarrow> nat \<Rightarrow> nat \<Rightarrow> nat \<Rightarrow> int \<Rightarrow> Filter \<Rightarrow> Filter" where
  "twopass_sample c A j i x f =
     (let a1 = (buf_a f)(A + 2 := (c0_a c * buf_a f (A + 1) + c1 c * buf_a f A) - c2_a c * real_of_int x);
          a2 = a1(A := a1 A - (c1 c * a1 (A + 2)));
          a3 = a2(A + 1 := a2 (A + 2));
          filter_out_a = a3 (A + 1);
          b1 = (buf f)(A + 2 := (c0 c * buf f (A + 1) + c1 c * buf f A) - c2 c * filter_out_a);
          b2 = b1(A := b1 A - (c1 c * b1 (A + 2)));
          b3 = b2(A + 1 := b2 (A + 2));
          filter_out_b = b3 (A + 1)
      in f\<lparr>buf_a := a3, buf := b3,
           filter_out := (filter_out f)(j := (filter_out f j)(i := (ratio_a c * filter_out_a) - filter_out_b))\<rparr>)"

text \<open>The sample loop of the source pass (with the overload test) and of the
  morph-destination pass (without it).\<close>

definition twopass_src_loop :: "config \<Rightarrow> coefs \<Rightarrow> nat \<Rightarrow> nat \<Rightarrow> world \<Rightarrow> world" where
  "twopass_src_loop K c A channel_num w0 =
     for_loop (NUM_SAMPLES K)
       (\<lambda>i w. let x = io_in (io w) channel_num i;
                  w' = flag_clip K x w
              in w'\<lparr>flt := twopass_sample c A channel_num i x (flt w')\<rparr>) w0"

definition twopass_dest_loop :: "config \<Rightarrow> coefs \<Rightarrow> nat \<Rightarrow> nat \<Rightarrow> world \<Rightarrow> world" where
  "twopass_dest_loop K d B channel_num w0 =
     for_loop (NUM_SAMPLES K)
       (\<lambda>i w. w\<lparr>flt := twopass_sample d B (channel_num + 6) i
                          (io_in (io w) channel_num i) (flt w)\<rparr>) w0"

text \<open>The two stores into \<open>envelope->envout_preload_voct[channel_num]\<close>: the pitch of the
  source note, and the glissando between it and the pitch of the destination.\<close>

definition set_voct :: "nat \<Rightarrow> real \<Rightarrow> world \<Rightarrow> world" where
  "set_voct channel_num v w =
     w\<lparr>envelope := (envelope w)
        \<lparr>envout_preload_voct := (envout_preload_voct (envelope w))(channel_num := v)\<rparr>\<rparr>"

definition glide_voct :: "nat \<Rightarrow> real \<Rightarrow> world \<Rightarrow> world" where
  "glide_voct channel_num destvoct w =
     set_voct channel_num
       ((envout_preload_voct (envelope w) channel_num
           * (1 - motion_morphpos (rotation w) channel_num))
        + (destvoct * motion_morphpos (rotation w) channel_num)) w"

definition twopass_channel :: "config \<Rightarrow> tables \<Rightarrow> nat \<Rightarrow> world \<Rightarrow> world" where
  "twopass_channel K T channel_num w0 =
     (let c = twopass_coefs K T w0 channel_num;
          A = hist_addr K channel_num (unat (scale (flt w0) channel_num))
                (unat (note_ch (flt w0) channel_num)) 0;
          w1 = twopass_src_loop K c A channel_num w0;
          w2 = set_voct channel_num (c1 c) w1
      in if motion_morphpos (rotation w2) channel_num > 0
         then
           (let d = twopass_dest_coefs K T w2 channel_num c;
                destvoct = c1 d;
                B = hist_addr K channel_num (unat (motion_fadeto_scale (rotation w2) channel_num))
                      (unat (motion_fadeto_note (rotation w2) channel_num)) 0;
                w3 = twopass_dest_loop K d B channel_num w2
            in if GLIDE_SWITCH (io w3) then glide_voct channel_num destvoct w3 else w3)
         else w2)"

definition filter_twopass :: "config \<Rightarrow> tables \<Rightarrow> world \<Rightarrow> world" where
  "filter_twopass K T w =
     for_loop NUM_CHANNELS (twopass_channel K T) (w\<lparr>io := (io w)\<lparr>INPUT_CLIP := False\<rparr>\<rparr>)"

subsection \<open>\<open>Filter::filter_onepass\<close>\<close>

definition onepass_coefs :: "config \<Rightarrow> tables \<Rightarrow> world \<Rightarrow> nat \<Rightarrow> u8 \<Rightarrow> u8 \<Rightarrow> coefs" where
  "onepass_coefs K T w channel_num scale_num filter_num =
     (let c0' = 1 - exp_4096 T (to_uint32 (real (qval (q w) channel_num) / 1.4) + 200)
                      / (10 / FREQSCALE (io w));
          c1' = freq_coef K T w channel_num scale_num filter_num;
          c2' = ((0.003 * c1') - (0.1 * c0') + 0.102)
                  * (((4096 - real (qval (q w) channel_num)) / 1024) + 1.04)
      in \<lparr>c0_a = 0, c0 = c0', c1 = c1', c2_a = 0, c2 = c2', ratio_a = 0, ratio_b = 0\<rparr>)"

definition onepass_sample :: "coefs \<Rightarrow> nat \<Rightarrow> nat \<Rightarrow> nat \<Rightarrow> int \<Rightarrow> Filter \<Rightarrow> Filter" where
  "onepass_sample c A j i x f =
     (let tmp = real_of_int x;
          b1 = (buf f)(A + 2 := (c0 c * buf f (A + 1) + c1 c * buf f A) - c2 c * tmp);
          iir = b1 A - (c1 c * b1 (A + 2));
          b2 = b1(A := iir);
          b3 = b2(A + 1 := b2 (A + 2))
      in f\<lparr>buf := b3, filter_out := (filter_out f)(j := (filter_out f j)(i := b3 (A + 1)))\<rparr>)"

definition onepass_loop :: "config \<Rightarrow> coefs \<Rightarrow> nat \<Rightarrow> nat \<Rightarrow> nat \<Rightarrow> world \<Rightarrow> world" where
  "onepass_loop K c A j channel_num w0 =
     for_loop (NUM_SAMPLES K)
       (\<lambda>i w. let x = io_in (io w) channel_num i;
                  w' = flag_clip K x w
              in w'\<lparr>flt := onepass_sample c A j i x (flt w')\<rparr>) w0"

definition onepass_row :: "config \<Rightarrow> tables \<Rightarrow> nat \<Rightarrow> world \<Rightarrow> world" where
  "onepass_row K T j w0 =
     (let channel_num = (if j < NUM_CHANNELS then j else j - NUM_CHANNELS)
      in if j < NUM_CHANNELS \<or> motion_morphpos (rotation w0) channel_num \<noteq> 0
         then
           (let filter_num = (if j < NUM_CHANNELS then note_ch (flt w0) channel_num
                              else motion_fadeto_note (rotation w0) channel_num);
                scale_num = (if j < NUM_CHANNELS then scale (flt w0) channel_num
                             else motion_fadeto_scale (rotation w0) channel_num);
                c = onepass_coefs K T w0 channel_num scale_num filter_num;
                w1 = (if j < NUM_CHANNELS then set_voct channel_num (c1 c) w0 else w0);
                destvoct = c1 c;
                A = hist_addr K channel_num (unat scale_num) (unat filter_num) 0;
                w2 = onepass_loop K c A j channel_num w1
            in if GLIDE_SWITCH (io w2) \<and> j \<ge> NUM_CHANNELS
               then glide_voct channel_num destvoct w2 else w2)
         else w0)"

definition filter_onepass :: "config \<Rightarrow> tables \<Rightarrow> world \<Rightarrow> world" where
  "filter_onepass K T w =
     for_loop (NUM_CHANNELS * 2) (onepass_row K T) (w\<lparr>io := (io w)\<lparr>INPUT_CLIP := False\<rparr>\<rparr>)"

subsection \<open>\<open>Filter::filter_bpre\<close>\<close>

text \<open>The interpolated coefficients: each of the three is blended between the note and the
  next note by the nudge, in the low-Q and in the high-Q table, and the two results are
  blended by \<open>log_4096\<close> of the Q value. No limit is applied to them. The nudge is
  snapped to 0 below \<open>0.002f\<close> and to 1 above \<open>0.998f\<close>.\<close>

definition bpre_coefs :: "config \<Rightarrow> tables \<Rightarrow> world \<Rightarrow> nat \<Rightarrow> u8 \<Rightarrow> u8 \<Rightarrow> coefs" where
  "bpre_coefs K T w channel_num scale_num filter_num =
     (let var_f0 = freq_nudge (tuning w) channel_num;
          var_f1 = (if var_f0 < 8589935 / 4294967296 then 0 else var_f0);
          var_f = (if var_f1 > 8371831 / 8388608 then 1 else var_f1);
          inv_var_f = 1 - var_f;
          nudge0 = filter_num + 1;
          nudge_filter_num = (if unat nudge0 > NUM_FILTS K then word_of_nat (NUM_FILTS K) else nudge0);
          lo = (\<lambda>k. table_at T (user_scale_bank (flt w)) (c_loq (flt w) channel_num)
                       (unat scale_num * 63 + unat nudge_filter_num * 3 + k) * var_f
                   + table_at T (user_scale_bank (flt w)) (c_loq (flt w) channel_num)
                       (unat scale_num * 63 + unat filter_num * 3 + k) * inv_var_f);
          hi = (\<lambda>k. table_at T (user_scale_bank (flt w)) (c_hiq (flt w) channel_num)
                       (unat scale_num * 63 + unat nudge_filter_num * 3 + k) * var_f
                   + table_at T (user_scale_bank (flt w)) (c_hiq (flt w) channel_num)
                       (unat scale_num * 63 + unat filter_num * 3 + k) * inv_var_f);
          var_q = (if qval (q w) channel_num > 4065 then 1
                   else log_4096 T (qval (q w) channel_num));
          inv_var_q = (if qval (q w) channel_num > 4065 then 0 else 1 - var_q)
      in \<lparr>c0_a = 0,
          c0 = hi 0 * var_q + lo 0 * inv_var_q,
          c1 = hi 1 * var_q + lo 1 * inv_var_q,
          c2_a = 0,
          c2 = hi 2 * var_q + lo 2 * inv_var_q,
          ratio_a = 0, ratio_b = 0\<rparr>)"

definition bpre_sample :: "coefs \<Rightarrow> nat \<Rightarrow> nat \<Rightarrow> nat \<Rightarrow> int \<Rightarrow> Filter \<Rightarrow> Filter" where
  "bpre_sample c A j i x f =
     (let tmp = buf f A;
          b1 = (buf f)(A := buf f (A + 1));
          iir0 = real_of_int x * c0 c;
          iir1 = iir0 - c1 c * tmp;
          fir0 = - tmp;
          iir2 = iir1 - c2 c * b1 A;
          fir1 = fir0 + iir2;
          b2 = b1(A + 1 := iir2)
      in f\<lparr>buf := b2, filter_out := (filter_out f)(j := (filter_out f j)(i := fir1))\<rparr>)"

definition bpre_loop :: "config \<Rightarrow> coefs \<Rightarrow> nat \<Rightarrow> nat \<Rightarrow> nat \<Rightarrow> world \<Rightarrow> world" where
  "bpre_loop K c A j channel_num w0 =
     for_loop (NUM_SAMPLES K)
       (\<lambda>i w. let x = io_in (io w) channel_num i;
                  w' = flag_clip K x w
              in w'\<lparr>flt := bpre_sample c A j i x (flt w')\<rparr>) w0"

definition bpre_row :: "config \<Rightarrow> tables \<Rightarrow> nat \<Rightarrow> world \<Rightarrow> world" where
  "bpre_row K T j w0 =
     (let channel_num = (if j < NUM_CHANNELS then j else j - NUM_CHANNELS)
      in if j < NUM_CHANNELS \<or> motion_morphpos (rotation w0) channel_num \<noteq> 0
         then
           (let filter_num = (if j < NUM_CHANNELS then note_ch (flt w0) channel_num
                              else motion_fadeto_note (rotation w0) channel_num);
                scale_num = (if j < NUM_CHANNELS then scale (flt w0) channel_num
                             else motion_fadeto_scale (rotation w0) channel_num);
                voct = table_at T (user_scale_bank (flt w0)) (bpretuning (flt w0) channel_num)
                         (unat scale_num * NUM_SCALENOTES K + unat filter_num);
                w1 = (if j < NUM_CHANNELS then set_voct channel_num voct w0 else w0);
                destvoct = voct;
                c = bpre_coefs K T w1 channel_num scale_num filter_num;
                A = hist_addr K channel_num (unat scale_num) (unat filter_num) 0;
                w2 = bpre_loop K c A j channel_num w1
            in if GLIDE_SWITCH (io w2) \<and> j \<ge> NUM_CHANNELS
               then glide_voct channel_num destvoct w2 else w2)
         else w0)"

definition filter_bpre :: "config \<Rightarrow> tables \<Rightarrow> world \<Rightarrow> world" where
  "filter_bpre K T w =
     for_loop (NUM_CHANNELS * 2) (bpre_row K T) (w\<lparr>io := (io w)\<lparr>INPUT_CLIP := False\<rparr>\<rparr>)"

subsection \<open>\<open>Filter::process_audio_block\<close>\<close>

text \<open>The pending filter type becomes the active one (the first statement of the block).\<close>

definition apply_pending_type :: "Filter \<Rightarrow> Filter" where
  "apply_pending_type f =
     (if filter_type_changed f then f\<lparr>filter_type := new_filter_type f\<rparr> else f)"

text \<open>The algorithm of the block, chosen once from \<open>filter_mode\<close> and \<open>filter_type\<close>.\<close>

definition run_filter :: "config \<Rightarrow> tables \<Rightarrow> world \<Rightarrow> world" where
  "run_filter K T w =
     (if filter_mode (flt w) = TWOPASS then filter_twopass K T w
      else if filter_type (flt w) = MAXQ then filter_onepass K T w
      else filter_bpre K T w)"

text \<open>The state of a block when the filter algorithm starts: pending type applied,
  tables resolved, Q updated. Then the state when the morphing loop starts: the filter
  run and the morph updated.\<close>

definition block_prepared :: "config \<Rightarrow> externals \<Rightarrow> world \<Rightarrow> world" where
  "block_prepared K E w0 =
     (let w1 = w0\<lparr>flt := apply_pending_type (flt w0)\<rparr>;
          w2 = w1\<lparr>flt := process_scale_bank K (io w1) (flt w1)\<rparr>
      in w2\<lparr>q := run_q_update E w2\<rparr>)"

definition block_filtered :: "config \<Rightarrow> tables \<Rightarrow> externals \<Rightarrow> world \<Rightarrow> world" where
  "block_filtered K T E w0 =
     (let w4 = run_filter K T (block_prepared K E w0)
      in w4\<lparr>rotation := run_update_morph E w4\<rparr>)"

definition f_blended :: "world \<Rightarrow> nat \<Rightarrow> nat \<Rightarrow> real" where
  "f_blended w j i =
     (filter_out (flt w) j i * (1 - motion_morphpos (rotation w) j))
       + (filter_out (flt w) (j + NUM_CHANNELS) i * motion_morphpos (rotation w) j)"

definition morph_sample :: "nat \<Rightarrow> nat \<Rightarrow> world \<Rightarrow> world" where
  "morph_sample i j w =
     (let fb = (if motion_morphpos (rotation w) j = 0 then filter_out (flt w) j i
                else f_blended w j i)
      in w\<lparr>io := (io w)\<lparr>io_out := (io_out (io w))
             (j := (io_out (io w) j)(i := fb * channel_level (levels w) j))\<rparr>\<rparr>)"

definition morphing :: "config \<Rightarrow> world \<Rightarrow> world" where
  "morphing K w = for_loop (NUM_SAMPLES K) (\<lambda>i. for_loop NUM_CHANNELS (morph_sample i)) w"

definition level_channel :: "config \<Rightarrow> nat \<Rightarrow> world \<Rightarrow> world" where
  "level_channel K j w =
     (let fb = f_blended w j 0;
          w1 = w\<lparr>io := (io w)\<lparr>channelLevel := (channelLevel (io w))
                  (j := (fb * channel_level (levels w) j) / CLIP_LEVEL K)\<rparr>\<rparr>
      in w1\<lparr>envelope := (envelope w1)\<lparr>envout_preload := (envout_preload (envelope w1))
              (j := (if fb > 0 then fb else - 1 * fb))\<rparr>\<rparr>)"

definition process_audio_block :: "config \<Rightarrow> tables \<Rightarrow> externals \<Rightarrow> world \<Rightarrow> world" where
  "process_audio_block K T E w0 =
     (let w5 = block_filtered K T E w0;
          w6 = morphing K w5;
          w7 = for_loop NUM_CHANNELS (level_channel K) w6
      in w7\<lparr>flt := (flt w7)\<lparr>filter_type_changed := False\<rparr>,
            io := (io w7)\<lparr>USER_SCALE_CHANGED := False\<rparr>\<rparr>)"

section \<open>The resampling pipeline (Audio.cpp)\<close>

text \<open>
  The ring buffers, the sample-rate converter and the noise generators belong to the host
  library; they are parameters. A ring buffer is the list of its frames (oldest first)
  with a fixed size, a frame is its one sample, a converter run takes the converter's
  state, the two rates, the frames on offer and the room for output, and yields the new
  state, the number of frames consumed and the frames produced. \<open>process_audio\<close> is
  the controller's one-block entry point.
\<close>

record ('r, 'g) audio_env =
  ring_size :: nat
  src_process :: "'r \<Rightarrow> real \<Rightarrow> real \<Rightarrow> real list \<Rightarrow> nat \<Rightarrow> 'r \<times> nat \<times> real list"
  brown_next :: "'g \<Rightarrow> real \<times> 'g"
  pink_next :: "'g \<Rightarrow> real \<times> 'g"
  white_next :: "'g \<Rightarrow> real \<times> 'g"
  process_audio :: "world \<Rightarrow> world"

record Output =
  channels :: nat
  voltage :: "nat \<Rightarrow> real"

text \<open>The state of \<open>Audio\<close>, with the two by-reference arguments of
  \<open>nChannelProcess\<close> (\<open>main\<close> as \<open>amain\<close>, \<open>output\<close> as \<open>host_output\<close>) as fields.\<close>

record ('r, 'g) audio =
  inputChannels :: int
  outputChannels :: int
  noiseSelected :: int
  inChannels :: nat
  outChannels :: nat
  sampleRate :: real
  brown :: 'g
  pink :: 'g
  white :: 'g
  nInputSrc :: "nat \<Rightarrow> 'r"
  nOutputSrc :: "nat \<Rightarrow> 'r"
  nInputBuffer :: "nat \<Rightarrow> real list"
  nOutputBuffer :: "nat \<Rightarrow> real list"
  nInputFrame :: "nat \<Rightarrow> real"
  nOutputFrame :: "nat \<Rightarrow> real"
  nInputFrames :: "nat \<Rightarrow> nat \<Rightarrow> real"
  nOutputFrames :: "nat \<Rightarrow> nat \<Rightarrow> real"
  amain :: world
  host_output :: Output

definition generateNoise :: "('r, 'g) audio_env \<Rightarrow> ('r, 'g) audio \<Rightarrow> real \<times> ('r, 'g) audio" where
  "generateNoise E a =
     (if noiseSelected a = 0
      then (let (x, g) = brown_next E (brown a) in (x * 10 - 5, a\<lparr>brown := g\<rparr>))
      else if noiseSelected a = 1
      then (let (x, g) = pink_next E (pink a) in (x * 10 - 5, a\<lparr>pink := g\<rparr>))
      else if noiseSelected a = 2
      then (let (x, g) = white_next E (white a) in (x * 10 - 5, a\<lparr>white := g\<rparr>))
      else (let (x, g) = pink_next E (pink a) in (x * 10 - 5, a\<lparr>pink := g\<rparr>)))"

definition populateInputBuffer ::
  "('r, 'g) audio_env \<Rightarrow> (nat \<Rightarrow> real) \<Rightarrow> ('r, 'g) audio \<Rightarrow> ('r, 'g) audio" where
  "populateInputBuffer E getVoltage a0 =
     for_loop (inChannels a0)
       (\<lambda>i a. if length (nInputBuffer a i) \<noteq> ring_size E
              then
                (let (v, a1) = (if inputChannels a = 0
                                then (let (n, a') = generateNoise E a in (n / 5, a'))
                                else if inputChannels a = 1 then (getVoltage 0 / 5, a)
                                else (getVoltage i / 5, a));
                     a2 = a1\<lparr>nInputFrame := (nInputFrame a1)(i := v)\<rparr>
                 in a2\<lparr>nInputBuffer := (nInputBuffer a2)(i := nInputBuffer a2 i @ [nInputFrame a2 i])\<rparr>)
              else a) a0"

text \<open>\<open>clamp(x, a, b)\<close> of the host library and the cast to \<open>int32_t\<close>, which drops the
  fraction towards zero.\<close>

definition clamp :: "real \<Rightarrow> real \<Rightarrow> real \<Rightarrow> real" where
  "clamp x lo hi = max (min x hi) lo"

definition to_int32 :: "real \<Rightarrow> int" where
  "to_int32 x = (if x \<ge> 0 then \<lfloor>x\<rfloor> else \<lceil>x\<rceil>)"

text \<open>The store of one converted sample into the channel slots of \<open>main.io->in\<close>.\<close>

definition store_input :: "nat \<Rightarrow> nat \<Rightarrow> nat \<Rightarrow> int \<Rightarrow> IO \<Rightarrow> IO" where
  "store_input n i j v ioc =
     (if n = 2
      then ioc\<lparr>io_in := (io_in ioc)
              (i := (io_in ioc i)(j := v),
               2 + i := (io_in ioc (2 + i))(j := v),
               4 + i := (io_in ioc (4 + i))(j := v))\<rparr>
      else if n = 3
      then ioc\<lparr>io_in := (io_in ioc)
              (i := (io_in ioc i)(j := v),
               1 + i := (io_in ioc (1 + i))(j := v))\<rparr>
      else ioc\<lparr>io_in := (io_in ioc)(i := (io_in ioc i)(j := v))\<rparr>)"

definition resample_lane ::
  "config \<Rightarrow> ('r, 'g) audio_env \<Rightarrow> nat \<Rightarrow> ('r, 'g) audio \<Rightarrow> ('r, 'g) audio" where
  "resample_lane K E i a0 =
     (if nInputBuffer a0 i \<noteq> []
      then
        (let (r, inLen, produced) =
               src_process E (nInputSrc a0 i) (sampleRate a0) 96000 (nInputBuffer a0 i) (NUM_SAMPLES K);
             a1 = a0\<lparr>nInputSrc := (nInputSrc a0)(i := r),
                     nInputFrames := (nInputFrames a0)
                       (i := (\<lambda>j. if j < length produced then produced ! j else nInputFrames a0 i j)),
                     nInputBuffer := (nInputBuffer a0)(i := drop inLen (nInputBuffer a0 i))\<rparr>
         in for_loop (NUM_SAMPLES K)
              (\<lambda>j a. let v = to_int32 (clamp (nInputFrames a i j * MAX_12BIT K) (MIN_12BIT K) (MAX_12BIT K))
                     in a\<lparr>amain := (amain a)\<lparr>io := store_input (inChannels a) i j v (io (amain a))\<rparr>\<rparr>) a1)
      else a0)"

definition resampleInput ::
  "config \<Rightarrow> ('r, 'g) audio_env \<Rightarrow> ('r, 'g) audio \<Rightarrow> ('r, 'g) audio" where
  "resampleInput K E a = for_loop NUM_CHANNELS (resample_lane K E) a"

text \<open>The accumulation of one engine output sample into \<open>nOutputFrames\<close>, by the
  output-channel selector.\<close>

definition accumulate_output ::
  "config \<Rightarrow> nat \<Rightarrow> nat \<Rightarrow> ('r, 'g) audio \<Rightarrow> ('r, 'g) audio" where
  "accumulate_output K chan i a =
     (let x = io_out (io (amain a)) chan i / MAX_12BIT K;
          add = (\<lambda>lane. a\<lparr>nOutputFrames := (nOutputFrames a)
                   (lane := (nOutputFrames a lane)(i := nOutputFrames a lane i + x))\<rparr>)
      in if outputChannels a = 0 then add 0
         else if outputChannels a = 1 then (if odd i then add 1 else add 0)
         else if outputChannels a = 2
         then a\<lparr>nOutputFrames := (nOutputFrames a)(chan := (nOutputFrames a chan)(i := x))\<rparr>
         else add 0)"

text \<open>The converter run on an output lane, inside the sample loop as in the source: the
  block \<open>nOutputFrames[chan]\<close> is converted into the room left in the lane's ring
  buffer and appended to it.\<close>

definition resample_output ::
  "config \<Rightarrow> ('r, 'g) audio_env \<Rightarrow> nat \<Rightarrow> ('r, 'g) audio \<Rightarrow> ('r, 'g) audio" where
  "resample_output K E chan a =
     (let (r, inLen, produced) =
            src_process E (nOutputSrc a chan) 96000 (sampleRate a)
              (map (nOutputFrames a chan) [0..<NUM_SAMPLES K])
              (ring_size E - length (nOutputBuffer a chan))
      in a\<lparr>nOutputSrc := (nOutputSrc a)(chan := r),
           nOutputBuffer := (nOutputBuffer a)(chan := nOutputBuffer a chan @ produced)\<rparr>)"

definition populateAndResampleOutputBuffer ::
  "config \<Rightarrow> ('r, 'g) audio_env \<Rightarrow> ('r, 'g) audio \<Rightarrow> ('r, 'g) audio" where
  "populateAndResampleOutputBuffer K E a0 =
     for_loop NUM_CHANNELS
       (\<lambda>chan. for_loop (NUM_SAMPLES K)
                 (\<lambda>i a. resample_output K E chan (accumulate_output K chan i a))) a0"

text \<open>\<open>output.setVoltage(v, c)\<close>.\<close>

definition setVoltage :: "real \<Rightarrow> nat \<Rightarrow> Output \<Rightarrow> Output" where
  "setVoltage v c out = out\<lparr>voltage := (voltage out)(c := v)\<rparr>"

text \<open>\<open>bufferReady\<close>: every active output lane has a frame.\<close>

definition bufferReady :: "('r, 'g) audio \<Rightarrow> bool" where
  "bufferReady a =
     for_loop (outChannels a) (\<lambda>chan ready. ready \<and> nOutputBuffer a chan \<noteq> []) True"

definition processOutputBuffer :: "('r, 'g) audio \<Rightarrow> ('r, 'g) audio" where
  "processOutputBuffer a0 =
     (let a1 = a0\<lparr>host_output := (host_output a0)\<lparr>channels := outChannels a0\<rparr>\<rparr>
      in if bufferReady a1
         then
           (let a2 = for_loop (outChannels a1)
                       (\<lambda>chan a. a\<lparr>nOutputFrame := (nOutputFrame a)(chan := hd (nOutputBuffer a chan)),
                                   nOutputBuffer := (nOutputBuffer a)(chan := tl (nOutputBuffer a chan))\<rparr>) a1;
                emit = (\<lambda>chan a. a\<lparr>host_output := setVoltage (nOutputFrame a chan * 5) chan (host_output a)\<rparr>)
            in if outputChannels a2 = 0 then emit 0 a2
               else if outputChannels a2 = 1 then emit 1 (emit 0 a2)
               else if outputChannels a2 = 2 then for_loop (outChannels a2) emit a2
               else emit 0 a2)
         else a1)"

definition select_channels :: "('r, 'g) audio \<Rightarrow> ('r, 'g) audio" where
  "select_channels a =
     (let a1 = a\<lparr>inChannels := (if inputChannels a = 0 \<or> inputChannels a = 1 \<or> inputChannels a = 2
                                then 2
                                else if inputChannels a = 3 then 3 else 6)\<rparr>
      in a1\<lparr>outChannels := (if outputChannels a1 = 0 then 1
                             else if outputChannels a1 = 1 then 2
                             else if outputChannels a1 = 2 then 6 else 1)\<rparr>)"

text \<open>\<open>nChannelProcess\<close> up to its last statement: the channel counts, the input
  frame, and the processing cycle when the lane-0 output buffer is empty.\<close>

definition process_cycle ::
  "config \<Rightarrow> ('r, 'g) audio_env \<Rightarrow> (nat \<Rightarrow> real) \<Rightarrow> ('r, 'g) audio \<Rightarrow> ('r, 'g) audio" where
  "process_cycle K E getVoltage a0 =
     (let a1 = select_channels a0;
          a2 = populateInputBuffer E getVoltage a1
      in if nOutputBuffer a2 0 = []
         then (let b1 = resampleInput K E a2;
                   b2 = b1\<lparr>amain := process_audio E (amain b1)\<rparr>
               in populateAndResampleOutputBuffer K E b2)
         else a2)"

definition nChannelProcess ::
  "config \<Rightarrow> ('r, 'g) audio_env \<Rightarrow> (nat \<Rightarrow> real) \<Rightarrow> ('r, 'g) audio \<Rightarrow> ('r, 'g) audio" where
  "nChannelProcess K E getVoltage a0 =
     (let a3 = process_cycle K E getVoltage a0
      in if nOutputBuffer a3 0 \<noteq> [] then processOutputBuffer a3 else a3)"

section \<open>Auxiliary predicates and sample states\<close>

text \<open>The reset condition of \<open>process_scale_bank\<close> for channel \<open>i\<close>, read on the state
  before the call, and the float offsets the clearing loop of channel \<open>i\<close> writes.\<close>

definition reset_needed :: "config \<Rightarrow> IO \<Rightarrow> Filter \<Rightarrow> nat \<Rightarrow> bool" where
  "reset_needed K ioc f i =
     (scale_bank (clamp_indices K i f) i \<noteq> old_scale_bank f i \<or> filter_type_changed f
        \<or> USER_SCALE_CHANGED ioc)"

definition cleared :: "config \<Rightarrow> nat \<Rightarrow> nat \<Rightarrow> bool" where
  "cleared K i a =
     (0 < NUM_SCALES K * NUM_FILTS K \<and> hist_addr K i 0 0 0 \<le> a
        \<and> a < hist_addr K i 0 0 0 + NUM_SCALES K * NUM_FILTS K + 2)"

text \<open>What the filter algorithms read and never write: the collaborators' arrays, the
  input block and switches, and the index fields, the table pointers and the user scale
  of the filter.\<close>

definition filter_reads :: "world \<Rightarrow>
    Q \<times> Tuning \<times> Rotation \<times> Levels \<times> (nat \<Rightarrow> nat \<Rightarrow> int) \<times> real \<times> bool
      \<times> (nat \<Rightarrow> u8) \<times> (nat \<Rightarrow> u8) \<times> (nat \<Rightarrow> coef_ptr) \<times> (nat \<Rightarrow> coef_ptr)
      \<times> (nat \<Rightarrow> coef_ptr) \<times> (nat \<Rightarrow> real)" where
  "filter_reads w =
     (q w, tuning w, rotation w, levels w, io_in (io w), FREQSCALE (io w), GLIDE_SWITCH (io w),
      scale (flt w), note_ch (flt w), c_hiq (flt w), c_loq (flt w), bpretuning (flt w),
      user_scale_bank (flt w))"

text \<open>A state with the overload flag put down, the overload test of a block (some sample
  of some channel's input reaches the threshold), and a sample loop that makes no
  overload test.\<close>

definition sans_clip :: "world \<Rightarrow> world" where
  "sans_clip w = w\<lparr>io := (io w)\<lparr>INPUT_CLIP := False\<rparr>\<rparr>"

definition lane_clipped :: "config \<Rightarrow> world \<Rightarrow> nat \<Rightarrow> bool" where
  "lane_clipped K w ch =
     (\<exists>i<NUM_SAMPLES K. INPUT_LED_CLIP_LEVEL K \<le> real_of_int (io_in (io w) ch i))"

definition input_clipped :: "config \<Rightarrow> world \<Rightarrow> bool" where
  "input_clipped K w = (\<exists>ch<NUM_CHANNELS. lane_clipped K w ch)"

definition sample_loop ::
  "nat \<Rightarrow> (nat \<Rightarrow> int \<Rightarrow> Filter \<Rightarrow> Filter) \<Rightarrow> nat \<Rightarrow> world \<Rightarrow> world" where
  "sample_loop n step channel_num w0 =
     for_loop n (\<lambda>i w. w\<lparr>flt := step i (io_in (io w) channel_num i) (flt w)\<rparr>) w0"

text \<open>The fields of the filter that select the algorithm of a block.\<close>

definition control :: "world \<Rightarrow> FilterTypes \<times> FilterTypes \<times> bool \<times> FilterModes" where
  "control w = (filter_type (flt w), new_filter_type (flt w), filter_type_changed (flt w),
                filter_mode (flt w))"

text \<open>The type under which a block runs: the pending one when a change is pending,
  the active one otherwise.\<close>

definition block_type :: "Filter \<Rightarrow> FilterTypes" where
  "block_type f = (if filter_type_changed f then new_filter_type f else filter_type f)"

text \<open>The reference for claim C5, a block computed with \<open>t\<close> as the active type from
  its first statement to its last: \<open>process_scale_bank\<close> resolves the tables of a filter
  whose type is \<open>t\<close>, the algorithm is the one of the mode and of \<open>t\<close>, and the block
  ends as \<open>process_audio_block\<close> does.\<close>

definition block_under_type ::
  "FilterTypes \<Rightarrow> config \<Rightarrow> tables \<Rightarrow> externals \<Rightarrow> world \<Rightarrow> world" where
  "block_under_type t K T E w0 =
     (let w1 = w0\<lparr>flt := (flt w0)\<lparr>filter_type := t\<rparr>\<rparr>;
          w2 = w1\<lparr>flt := process_scale_bank K (io w1) (flt w1)\<rparr>;
          w3 = w2\<lparr>q := run_q_update E w2\<rparr>;
          w4 = (if filter_mode (flt w0) = TWOPASS then filter_twopass K T w3
                else if t = MAXQ then filter_onepass K T w3
                else filter_bpre K T w3);
          w5 = w4\<lparr>rotation := run_update_morph E w4\<rparr>;
          w6 = morphing K w5;
          w7 = for_loop NUM_CHANNELS (level_channel K) w6
      in w7\<lparr>flt := (flt w7)\<lparr>filter_type_changed := False\<rparr>,
            io := (io w7)\<lparr>USER_SCALE_CHANGED := False\<rparr>\<rparr>)"

text \<open>An instance of the constants for the concrete evaluations. The header is not in the
  sources, so these are sample values; 21 notes per scale and 20 banks agree with the
  literals \<open>63\<close> (three floats for each of 21 notes) in \<open>filter_bpre\<close> and \<open>19\<close>
  (the last bank) in Rainbow.cpp.\<close>

definition example_config :: config where
  "example_config =
     \<lparr>NUM_SCALES = 11, NUM_FILTS = 20, NUM_SCALENOTES = 21, NUM_SCALEBANKS = 20,
      NUM_BANKNOTES = 231, NUM_SAMPLES = 32,
      CROSSFADE_MIN = 1830, CROSSFADE_MAX = 3630, CROSSFADE_WIDTH = 1800,
      INPUT_LED_CLIP_LEVEL = 4000, CLIP_LEVEL = 4095, MAX_12BIT = 4095, MIN_12BIT = - 4095\<rparr>"

definition quiet_io :: IO where
  "quiet_io =
     \<lparr>CHANGED_BANK = False, NEW_BANK = 0, LOCK_ON = (\<lambda>_. False),
      USER_SCALE_CHANGED = False, USER_SCALE = (\<lambda>_. 0), INPUT_CLIP = False,
      FREQSCALE = 1, GLIDE_SWITCH = False,
      io_in = (\<lambda>_ _. 0), io_out = (\<lambda>_ _. 0), channelLevel = (\<lambda>_. 0)\<rparr>"

text \<open>A bank-change event to bank 1 with every channel unlocked.\<close>

definition bank_event :: IO where
  "bank_event = quiet_io\<lparr>CHANGED_BANK := True, NEW_BANK := 1\<rparr>"

text \<open>A filter on bank 0 whose two history arrays hold 1 in every float.\<close>

definition stale_filter :: Filter where
  "stale_filter =
     \<lparr>scale_bank = (\<lambda>_. 0), old_scale_bank = (\<lambda>_. 0), scale = (\<lambda>_. 0), note_ch = (\<lambda>_. 0),
      filter_type = MAXQ, new_filter_type = MAXQ, filter_type_changed = False,
      filter_mode = ONEPASS, user_scale_bank = (\<lambda>_. 0),
      buf = (\<lambda>_. 1), buf_a = (\<lambda>_. 1),
      c_hiq = (\<lambda>_. PresetMaxq 0), c_loq = (\<lambda>_. PresetBpreLo 0),
      bpretuning = (\<lambda>_. PresetMaxq 0), filter_out = (\<lambda>_ _. 0)\<rparr>"

text \<open>A filter whose banks hold the sentinel \<open>0xFF\<close> and whose notes hold 200.\<close>

definition ff_filter :: Filter where
  "ff_filter = stale_filter\<lparr>scale_bank := (\<lambda>_. 0xFF), old_scale_bank := (\<lambda>_. 0xFF),
                              note_ch := (\<lambda>_. 200)\<rparr>"

text \<open>Sample tables, a sample state of the engine and of the pipeline, and sample host
  parts: a converter that passes the frames on offer through as far as there is room, and
  noise sources that return a constant.\<close>

definition example_tables :: tables where
  "example_tables =
     \<lparr>exp_4096 = (\<lambda>_. 0), log_4096 = (\<lambda>_. 1), twopass_calibration = (\<lambda>_. 1),
      presets = (\<lambda>_. \<lparr>c_maxq = (\<lambda>_. 1 / 10), c_bpre_hi = (\<lambda>_. 1 / 2),
                       c_bpre_lo = (\<lambda>_. 1 / 2)\<rparr>)\<rparr>"

definition example_world :: world where
  "example_world =
     \<lparr>io = quiet_io, flt = stale_filter,
      q = \<lparr>qval = (\<lambda>_. 2048)\<rparr>,
      tuning = \<lparr>freq_nudge = (\<lambda>_. 1), freq_shift = (\<lambda>_. 1)\<rparr>,
      rotation = \<lparr>motion_morphpos = (\<lambda>_. 0), motion_fadeto_note = (\<lambda>_. 0),
                  motion_fadeto_scale = (\<lambda>_. 0)\<rparr>,
      envelope = \<lparr>envout_preload_voct = (\<lambda>_. 0), envout_preload = (\<lambda>_. 0)\<rparr>,
      levels = \<lparr>channel_level = (\<lambda>_. 1)\<rparr>\<rparr>"

definition example_externals :: externals where
  "example_externals = \<lparr>run_q_update = q, run_update_morph = rotation\<rparr>"

definition with_qval :: "nat \<Rightarrow> world \<Rightarrow> world" where
  "with_qval v w = w\<lparr>q := \<lparr>qval = (\<lambda>_. v)\<rparr>\<rparr>"

definition example_env :: "(unit, nat) audio_env" where
  "example_env =
     \<lparr>ring_size = 256,
      src_process = (\<lambda>r rate_in rate_out xs n. (r, length xs, take n xs)),
      brown_next = (\<lambda>g. (1 / 4, Suc g)),
      pink_next = (\<lambda>g. (1 / 2, Suc g)),
      white_next = (\<lambda>g. (3 / 4, Suc g)),
      process_audio = (\<lambda>w. w)\<rparr>"

definition idle_audio :: "(unit, nat) audio" where
  "idle_audio =
     \<lparr>inputChannels = 1, outputChannels = 0, noiseSelected = 7,
      inChannels = 2, outChannels = 1, sampleRate = 48000,
      brown = 0, pink = 0, white = 0,
      nInputSrc = (\<lambda>_. ()), nOutputSrc = (\<lambda>_. ()),
      nInputBuffer = (\<lambda>_. []), nOutputBuffer = (\<lambda>_. []),
      nInputFrame = (\<lambda>_. 0), nOutputFrame = (\<lambda>_. 0),
      nInputFrames = (\<lambda>_ _. 0), nOutputFrames = (\<lambda>_ _. 0),
      amain = example_world, host_output = \<lparr>channels = 0, voltage = (\<lambda>_. 0)\<rparr>\<rparr>"

text \<open>The sample state with every channel fully morphed to its destination.\<close>

definition morphed_world :: world where
  "morphed_world =
     example_world\<lparr>rotation := \<lparr>motion_morphpos = (\<lambda>_. 1), motion_fadeto_note = (\<lambda>_. 1),
                                 motion_fadeto_scale = (\<lambda>_. 0)\<rparr>\<rparr>"

text \<open>The channel slots one store of lane \<open>i\<close> writes, by the lane count, and the
  sample it stores for a converted frame.\<close>

definition store_targets :: "nat \<Rightarrow> nat \<Rightarrow> nat set" where
  "store_targets n i = (if n = 2 then {i, 2 + i, 4 + i} else if n = 3 then {i, 1 + i} else {i})"

definition input_sample :: "config \<Rightarrow> real \<Rightarrow> int" where
  "input_sample K x = to_int32 (clamp (x * MAX_12BIT K) (MIN_12BIT K) (MAX_12BIT K))"

text \<open>A host input of three channels at 0.5 V, 1 V and 1.5 V, and a pipeline at rest
  with \<open>n\<close> input channels whose engine input block still holds 7 in every slot.\<close>

definition three_voltages :: "nat \<Rightarrow> real" where
  "three_voltages i = (if i = 0 then 1 / 2 else if i = 1 then 1 else if i = 2 then 3 / 2 else 0)"

definition stale_input_audio :: "int \<Rightarrow> (unit, nat) audio" where
  "stale_input_audio n =
     idle_audio\<lparr>inputChannels := n,
                amain := example_world\<lparr>io := quiet_io\<lparr>io_in := (\<lambda>_ _. 7)\<rparr>\<rparr>\<rparr>"

text \<open>A pipeline at rest whose lane-0 output buffer still holds two frames.\<close>

definition draining_audio :: "(unit, nat) audio" where
  "draining_audio = idle_audio\<lparr>nOutputBuffer := (\<lambda>c. if c = 0 then [1, 2] else [])\<rparr>"

text \<open>A filter of the interpolated type with its tables resolved on bank 0, and the
  sample state with this filter.\<close>

definition bpre_filter :: Filter where
  "bpre_filter = stale_filter\<lparr>filter_type := BPRE, new_filter_type := BPRE,
                                c_hiq := (\<lambda>_. PresetBpreHi 0)\<rparr>"




text \<open>The sample state with one input sample of channel 2 at the overload threshold.\<close>

definition loud_world :: world where
  "loud_world =
     example_world\<lparr>io := quiet_io\<lparr>io_in := (\<lambda>ch i. if ch = 2 \<and> i = 5 then 4000 else 0)\<rparr>\<rparr>"

section \<open>Properties of \<open>process_scale_bank\<close>\<close>

lemma clear_hist_apply:
  "clear_hist ff n m a = (if 0 < n \<and> ff \<le> a \<and> a < ff + n + 2 then 0 else m a)"
  unfolding clear_hist_def by (induction n) auto

lemma clamp_indices_scale_bank:
  "scale_bank (clamp_indices K n f) i =
     (if i = n \<and> int (NUM_SCALEBANKS K) \<le> uint (scale_bank f i) \<and> scale_bank f i \<noteq> 0xFF
      then word_of_int (int (NUM_SCALEBANKS K) - 1) else scale_bank f i)"
  by (auto simp: clamp_indices_def Let_def)

lemma clamp_indices_scale:
  "scale (clamp_indices K n f) i =
     (if i = n \<and> int (NUM_SCALES K) \<le> uint (scale f i)
      then word_of_int (int (NUM_SCALES K) - 1) else scale f i)"
  by (auto simp: clamp_indices_def Let_def)

lemma clamp_indices_other:
  "note_ch (clamp_indices K n f) = note_ch f"
  "buf_a (clamp_indices K n f) = buf_a f"
  "buf (clamp_indices K n f) = buf f"
  "old_scale_bank (clamp_indices K n f) = old_scale_bank f"
  "filter_type_changed (clamp_indices K n f) = filter_type_changed f"
  "filter_type (clamp_indices K n f) = filter_type f"
  "new_filter_type (clamp_indices K n f) = new_filter_type f"
  "filter_mode (clamp_indices K n f) = filter_mode f"
  by (simp_all add: clamp_indices_def Let_def)

lemma select_tables_other:
  "scale_bank (select_tables K n f) = scale_bank f"
  "scale (select_tables K n f) = scale f"
  "note_ch (select_tables K n f) = note_ch f"
  "buf_a (select_tables K n f) = buf_a f"
  "buf (select_tables K n f) = buf f"
  "old_scale_bank (select_tables K n f) = old_scale_bank f"
  "filter_type_changed (select_tables K n f) = filter_type_changed f"
  "filter_type (select_tables K n f) = filter_type f"
  "new_filter_type (select_tables K n f) = new_filter_type f"
  "filter_mode (select_tables K n f) = filter_mode f"
  by (simp_all add: select_tables_def)

lemma psb_ch_same:
  "scale_bank (process_scale_bank_ch K ioc n f) = scale_bank (clamp_indices K n f)"
  "scale (process_scale_bank_ch K ioc n f) = scale (clamp_indices K n f)"
  "note_ch (process_scale_bank_ch K ioc n f) = note_ch f"
  "buf_a (process_scale_bank_ch K ioc n f) = buf_a f"
  "filter_type_changed (process_scale_bank_ch K ioc n f) = filter_type_changed f"
  "filter_type (process_scale_bank_ch K ioc n f) = filter_type f"
  "new_filter_type (process_scale_bank_ch K ioc n f) = new_filter_type f"
  "filter_mode (process_scale_bank_ch K ioc n f) = filter_mode f"
  by (simp_all add: process_scale_bank_ch_def Let_def select_tables_other clamp_indices_other)

lemma psb_loop_same:
  "note_ch (for_loop n (process_scale_bank_ch K ioc) f) = note_ch f"
  "buf_a (for_loop n (process_scale_bank_ch K ioc) f) = buf_a f"
  "filter_type_changed (for_loop n (process_scale_bank_ch K ioc) f) = filter_type_changed f"
  "filter_type (for_loop n (process_scale_bank_ch K ioc) f) = filter_type f"
  "new_filter_type (for_loop n (process_scale_bank_ch K ioc) f) = new_filter_type f"
  "filter_mode (for_loop n (process_scale_bank_ch K ioc) f) = filter_mode f"
  by (induction n) (simp_all add: psb_ch_same)

lemma psb_loop_scale_bank:
  "scale_bank (for_loop n (process_scale_bank_ch K ioc) f) i =
     (if i < n then scale_bank (clamp_indices K i f) i else scale_bank f i)"
  by (induction n) (auto simp: psb_ch_same clamp_indices_scale_bank less_Suc_eq)

lemma psb_loop_scale:
  "scale (for_loop n (process_scale_bank_ch K ioc) f) i =
     (if i < n then scale (clamp_indices K i f) i else scale f i)"
  by (induction n) (auto simp: psb_ch_same clamp_indices_scale less_Suc_eq)

lemma psb_ch_buf:
  "buf (process_scale_bank_ch K ioc n f) a =
     (if (scale_bank (clamp_indices K n f) n \<noteq> old_scale_bank f n \<or> filter_type_changed f
           \<or> USER_SCALE_CHANGED ioc)
         \<and> 0 < NUM_SCALES K * NUM_FILTS K \<and> hist_addr K n 0 0 0 \<le> a
         \<and> a < hist_addr K n 0 0 0 + NUM_SCALES K * NUM_FILTS K + 2
      then 0 else buf f a)"
  by (auto simp: process_scale_bank_ch_def Let_def select_tables_other clamp_indices_other
        clear_hist_apply)

lemma psb_ch_old_scale_bank:
  "old_scale_bank (process_scale_bank_ch K ioc n f) i =
     (if i = n then scale_bank (clamp_indices K n f) n else old_scale_bank f i)"
  by (simp add: process_scale_bank_ch_def Let_def select_tables_other clamp_indices_other)

lemma psb_loop_old_scale_bank:
  "old_scale_bank (for_loop n (process_scale_bank_ch K ioc) f) i =
     (if i < n then scale_bank (clamp_indices K i f) i else old_scale_bank f i)"
  by (induction n) (auto simp: psb_ch_old_scale_bank psb_loop_scale_bank clamp_indices_scale_bank less_Suc_eq)

lemma psb_loop_buf:
  "buf (for_loop n (process_scale_bank_ch K ioc) f) a =
     (if \<exists>i<n. reset_needed K ioc f i \<and> cleared K i a then 0 else buf f a)"
proof (induction n)
  case 0
  show ?case by simp
next
  case (Suc n)
  let ?g = "for_loop n (process_scale_bank_ch K ioc) f"
  have sb: "scale_bank (clamp_indices K n ?g) n = scale_bank (clamp_indices K n f) n"
    by (simp add: clamp_indices_scale_bank psb_loop_scale_bank)
  have ob: "old_scale_bank ?g n = old_scale_bank f n"
    by (simp add: psb_loop_old_scale_bank)
  have step: "buf (process_scale_bank_ch K ioc n ?g) a =
      (if reset_needed K ioc f n \<and> cleared K n a then 0 else buf ?g a)"
    by (simp add: psb_ch_buf sb ob psb_loop_same reset_needed_def cleared_def)
  show ?case
    unfolding for_loop.simps step Suc.IH
    by (auto simp: less_Suc_eq)
qed

lemma pbc_scale_bank:
  "scale_bank (process_bank_change ioc f) i =
     (if CHANGED_BANK ioc \<and> i < NUM_CHANNELS \<and> \<not> LOCK_ON ioc i then NEW_BANK ioc else scale_bank f i)"
proof -
  have "scale_bank (for_loop n (\<lambda>i f. if \<not> LOCK_ON ioc i
                    then f\<lparr>scale_bank := (scale_bank f)(i := NEW_BANK ioc)\<rparr> else f) f) i
        = (if i < n \<and> \<not> LOCK_ON ioc i then NEW_BANK ioc else scale_bank f i)" for n
    by (induction n) (auto simp: less_Suc_eq)
  then show ?thesis by (simp add: process_bank_change_def)
qed

lemma psb_buf:
  "buf (process_scale_bank K ioc f) a =
     (if \<exists>i<NUM_CHANNELS. reset_needed K ioc f i \<and> cleared K i a then 0 else buf f a)"
  by (simp add: process_scale_bank_def psb_loop_buf)

lemma pbc_other:
  "old_scale_bank (process_bank_change ioc f) = old_scale_bank f"
  "buf (process_bank_change ioc f) = buf f"
  "buf_a (process_bank_change ioc f) = buf_a f"
  "filter_type_changed (process_bank_change ioc f) = filter_type_changed f"
  "scale (process_bank_change ioc f) = scale f"
proof -
  let ?body = "\<lambda>i f. if \<not> LOCK_ON ioc i
                    then f\<lparr>scale_bank := (scale_bank f)(i := NEW_BANK ioc)\<rparr> else f"
  have "old_scale_bank (for_loop n ?body f) = old_scale_bank f
      \<and> buf (for_loop n ?body f) = buf f \<and> buf_a (for_loop n ?body f) = buf_a f
      \<and> filter_type_changed (for_loop n ?body f) = filter_type_changed f
      \<and> scale (for_loop n ?body f) = scale f" for n
    by (induction n) simp_all
  then show "old_scale_bank (process_bank_change ioc f) = old_scale_bank f"
    "buf (process_bank_change ioc f) = buf f"
    "buf_a (process_bank_change ioc f) = buf_a f"
    "filter_type_changed (process_bank_change ioc f) = filter_type_changed f"
    "scale (process_bank_change ioc f) = scale f"
    by (simp_all add: process_bank_change_def)
qed

text \<open>
  Claim C1 asks that a bank change clears the whole history of the channel in both
  arrays. On the sample state (bank-change event to bank 1, every channel unlocked, every
  history float equal to 1, 11 scales of 20 notes) \<open>process_scale_bank\<close> detects the
  change on channel 0 and clears the first vector of \<open>buf\<close>, but the last float of the
  channel's history (scale 10, note 19, element 2) still holds 1, and \<open>buf_a\<close> is
  untouched: the clearing loop advances its pointer by one float per (scale, note) pair
  instead of three.
\<close>

theorem C1_history_not_cleared:
  "scale_bank (process_scale_bank example_config bank_event (process_bank_change bank_event stale_filter)) 0 = 1
   \<and> old_scale_bank (process_scale_bank example_config bank_event (process_bank_change bank_event stale_filter)) 0 = 1
   \<and> buf (process_scale_bank example_config bank_event (process_bank_change bank_event stale_filter))
        (hist_addr example_config 0 0 0 0) = 0
   \<and> buf (process_scale_bank example_config bank_event (process_bank_change bank_event stale_filter))
        (hist_addr example_config 0 10 19 2) = 1
   \<and> buf_a (process_scale_bank example_config bank_event (process_bank_change bank_event stale_filter))
        (hist_addr example_config 0 0 0 0) = 1"
proof -
  let ?g = "process_bank_change bank_event stale_filter"
  let ?K = example_config
  have sb: "scale_bank ?g i = (if i < NUM_CHANNELS then 1 else 0)" for i
    by (simp add: pbc_scale_bank bank_event_def quiet_io_def stale_filter_def)
  have cl: "scale_bank (clamp_indices ?K i ?g) i = scale_bank ?g i" for i
    by (simp add: clamp_indices_scale_bank sb example_config_def)
  have old: "old_scale_bank ?g = (\<lambda>_. 0)" and b: "buf ?g = (\<lambda>_. 1)" and ba: "buf_a ?g = (\<lambda>_. 1)"
    by (simp_all add: pbc_other stale_filter_def)
  have ftc: "\<not> filter_type_changed ?g" and usc: "\<not> USER_SCALE_CHANGED bank_event"
    by (simp_all add: pbc_other stale_filter_def bank_event_def quiet_io_def)
  have need: "reset_needed ?K bank_event ?g i = (i < NUM_CHANNELS)" for i
    unfolding reset_needed_def cl sb old using ftc usc by simp
  have c0: "cleared ?K 0 (hist_addr ?K 0 0 0 0)"
    by (simp add: cleared_def hist_addr_def example_config_def)
  have c659: "\<not> cleared ?K i (hist_addr ?K 0 10 19 2)" for i
    by (cases "i = 0") (simp_all add: cleared_def hist_addr_def example_config_def)
  have 1: "scale_bank (process_scale_bank ?K bank_event ?g) 0 = 1"
    by (simp add: process_scale_bank_def psb_loop_scale_bank cl sb NUM_CHANNELS_def)
  have 2: "old_scale_bank (process_scale_bank ?K bank_event ?g) 0 = 1"
    by (simp add: process_scale_bank_def psb_loop_old_scale_bank cl sb NUM_CHANNELS_def)
  have 3: "buf (process_scale_bank ?K bank_event ?g) (hist_addr ?K 0 0 0 0) = 0"
    unfolding psb_buf using c0 need[of 0] by (auto simp: NUM_CHANNELS_def)
  have 4: "buf (process_scale_bank ?K bank_event ?g) (hist_addr ?K 0 10 19 2) = 1"
    unfolding psb_buf using c659 by (simp add: b)
  have 5: "buf_a (process_scale_bank ?K bank_event ?g) (hist_addr ?K 0 0 0 0) = 1"
    by (simp add: process_scale_bank_def psb_loop_same ba)
  from 1 2 3 4 5 show ?thesis by blast
qed

lemma psb_scale_bank_ff:
  "scale_bank f i = 0xFF \<Longrightarrow> scale_bank (process_scale_bank K ioc f) i = 0xFF"
  by (simp add: process_scale_bank_def psb_loop_scale_bank clamp_indices_scale_bank)

text \<open>
  Claim C4, as stated, fails: a bank index equal to the sentinel \<open>0xFF\<close> is exempt from
  the clamp and stays above the last valid bank.
\<close>

theorem C4_counterexample:
  "\<not> (unat (scale_bank (process_scale_bank example_config quiet_io ff_filter) 0)
         \<le> NUM_SCALEBANKS example_config - 1)"
proof -
  have "scale_bank (process_scale_bank example_config quiet_io ff_filter) 0 = 0xFF"
    by (rule psb_scale_bank_ff) (simp add: ff_filter_def)
  then show ?thesis by (simp add: example_config_def)
qed

lemma unat_last_index:
  assumes "0 < n" "n \<le> 256"
  shows "unat (word_of_int (int n - 1) :: u8) = n - 1"
proof -
  have e: "int n - 1 = int (n - 1)" using assms by simp
  have "(word_of_int (int (n - 1)) :: u8) = word_of_nat (n - 1)"
    by (rule word_of_int_nat[symmetric, simplified] | simp only: of_int_of_nat_eq)
  moreover have "n - 1 < 2 ^ LENGTH(8)" using assms by simp
  ultimately show ?thesis
    unfolding e by (simp only: of_nat_inverse[OF refl])
qed

lemma int_le_uint: "(int n \<le> uint (x :: u8)) = (n \<le> unat x)"
  by (metis nat_int nat_le_iff unat_eq_nat_uint uint_nonnegative int_nat_eq)

lemma psb_scale_at:
  assumes "i < NUM_CHANNELS"
  shows "scale (process_scale_bank K ioc f) i =
     (if NUM_SCALES K \<le> unat (scale f i) then word_of_int (int (NUM_SCALES K) - 1) else scale f i)"
  using assms
  by (simp only: process_scale_bank_def psb_loop_scale clamp_indices_scale int_le_uint
        if_True simp_thms)

lemma psb_scale_bank_at:
  assumes "i < NUM_CHANNELS"
  shows "scale_bank (process_scale_bank K ioc f) i =
     (if NUM_SCALEBANKS K \<le> unat (scale_bank f i) \<and> scale_bank f i \<noteq> 0xFF
      then word_of_int (int (NUM_SCALEBANKS K) - 1) else scale_bank f i)"
  using assms
  by (simp only: process_scale_bank_def psb_loop_scale_bank clamp_indices_scale_bank int_le_uint
        if_True simp_thms)

text \<open>
  Claim C4, amended: after \<open>process_scale_bank\<close> the scale index of every channel is the
  smaller of its old value and \<open>NUM_SCALES - 1\<close>; the bank index is the smaller of its
  old value and \<open>NUM_SCALEBANKS - 1\<close> unless it is the sentinel \<open>0xFF\<close>, which is
  kept; the note indices are not changed.
\<close>

theorem C4_indices_after_process_scale_bank:
  assumes "0 < NUM_SCALEBANKS K" "NUM_SCALEBANKS K \<le> 256"
    and "0 < NUM_SCALES K" "NUM_SCALES K \<le> 256"
    and "i < NUM_CHANNELS"
  shows "unat (scale (process_scale_bank K ioc f) i) = min (unat (scale f i)) (NUM_SCALES K - 1)
       \<and> (scale_bank f i \<noteq> 0xFF \<longrightarrow>
            unat (scale_bank (process_scale_bank K ioc f) i)
              = min (unat (scale_bank f i)) (NUM_SCALEBANKS K - 1))
       \<and> (scale_bank f i = 0xFF \<longrightarrow> scale_bank (process_scale_bank K ioc f) i = 0xFF)
       \<and> note_ch (process_scale_bank K ioc f) = note_ch f"
proof -
  have s: "unat (scale (process_scale_bank K ioc f) i) = min (unat (scale f i)) (NUM_SCALES K - 1)"
  proof (cases "NUM_SCALES K \<le> unat (scale f i)")
    case True
    then show ?thesis
      using assms(3) by (simp only: psb_scale_at[OF assms(5)] if_True unat_last_index[OF assms(3,4)]; linarith)
  next
    case False
    then show ?thesis
      by (simp only: psb_scale_at[OF assms(5)] if_False; linarith)
  qed
  have b: "unat (scale_bank (process_scale_bank K ioc f) i) = min (unat (scale_bank f i)) (NUM_SCALEBANKS K - 1)"
    if ne: "scale_bank f i \<noteq> 0xFF"
  proof (cases "NUM_SCALEBANKS K \<le> unat (scale_bank f i)")
    case True
    then show ?thesis
      using assms(1) ne
      by (simp only: psb_scale_bank_at[OF assms(5)] if_True unat_last_index[OF assms(1,2)] simp_thms; linarith)
  next
    case False
    then show ?thesis
      by (simp only: psb_scale_bank_at[OF assms(5)] if_False simp_thms; linarith)
  qed
  have n: "note_ch (process_scale_bank K ioc f) = note_ch f"
    by (simp add: process_scale_bank_def psb_loop_same)
  from s b n psb_scale_bank_ff show ?thesis by blast
qed

theorem C4_witness:
  "unat (scale (process_scale_bank example_config quiet_io ff_filter) 0)
      = min (unat (scale ff_filter 0)) (NUM_SCALES example_config - 1)
   \<and> scale_bank (process_scale_bank example_config quiet_io ff_filter) 0 = 0xFF
   \<and> unat (scale_bank (process_scale_bank example_config quiet_io stale_filter) 0)
      = min (unat (scale_bank stale_filter 0)) (NUM_SCALEBANKS example_config - 1)
   \<and> note_ch (process_scale_bank example_config quiet_io ff_filter) = note_ch ff_filter"
proof -
  have K: "0 < NUM_SCALEBANKS example_config" "NUM_SCALEBANKS example_config \<le> 256"
    "0 < NUM_SCALES example_config" "NUM_SCALES example_config \<le> 256" "0 < NUM_CHANNELS"
    by (simp_all add: example_config_def NUM_CHANNELS_def)
  have ff: "scale_bank ff_filter 0 = 0xFF" and st: "scale_bank stale_filter 0 \<noteq> 0xFF"
    by (simp_all add: ff_filter_def stale_filter_def)
  show ?thesis
    using C4_indices_after_process_scale_bank[OF K, of quiet_io ff_filter]
      C4_indices_after_process_scale_bank[OF K, of quiet_io stale_filter] ff st
    by blast
qed


text \<open>The table pointers after \<open>process_scale_bank\<close>, and the user scale after
  \<open>process_user_scale_change\<close>.\<close>

lemma select_tables_c_hiq:
  "c_hiq (select_tables K n f) i =
     (if i = n
      then (if filter_type f = MAXQ
            then (if uint (scale_bank f n) = int (NUM_SCALEBANKS K) - 1 then UserScaleBank
                  else PresetMaxq (unat (scale_bank f n)))
            else if filter_mode f \<noteq> TWOPASS then PresetBpreHi (unat (scale_bank f n))
            else c_hiq f n)
      else c_hiq f i)"
  by (cases "filter_type f") (simp_all add: select_tables_def)

lemma select_tables_c_loq:
  "c_loq (select_tables K n f) i =
     (if i = n \<and> filter_type f = BPRE \<and> filter_mode f \<noteq> TWOPASS
      then PresetBpreLo (unat (scale_bank f n)) else c_loq f i)"
  by (cases "filter_type f") (simp_all add: select_tables_def)

lemma select_tables_user:
  "user_scale_bank (select_tables K n f) = user_scale_bank f"
  by (simp add: select_tables_def)

lemma clamp_indices_tables:
  "c_hiq (clamp_indices K n f) = c_hiq f"
  "c_loq (clamp_indices K n f) = c_loq f"
  "user_scale_bank (clamp_indices K n f) = user_scale_bank f"
  by (simp_all add: clamp_indices_def Let_def)

lemma psb_ch_c_hiq:
  "c_hiq (process_scale_bank_ch K ioc n f) i =
     (if i = n \<and> reset_needed K ioc f n
      then (if filter_type f = MAXQ
            then (if uint (scale_bank (clamp_indices K n f) n) = int (NUM_SCALEBANKS K) - 1
                  then UserScaleBank
                  else PresetMaxq (unat (scale_bank (clamp_indices K n f) n)))
            else if filter_mode f \<noteq> TWOPASS
            then PresetBpreHi (unat (scale_bank (clamp_indices K n f) n))
            else c_hiq f n)
      else c_hiq f i)"
  by (auto simp: process_scale_bank_ch_def Let_def select_tables_c_hiq clamp_indices_other
        clamp_indices_tables reset_needed_def)

lemma psb_ch_c_loq:
  "c_loq (process_scale_bank_ch K ioc n f) i =
     (if i = n \<and> reset_needed K ioc f n \<and> filter_type f = BPRE \<and> filter_mode f \<noteq> TWOPASS
      then PresetBpreLo (unat (scale_bank (clamp_indices K n f) n)) else c_loq f i)"
  by (auto simp: process_scale_bank_ch_def Let_def select_tables_c_loq clamp_indices_other
        clamp_indices_tables reset_needed_def)

lemma psb_ch_user:
  "user_scale_bank (process_scale_bank_ch K ioc n f) = user_scale_bank f"
  by (simp add: process_scale_bank_ch_def Let_def select_tables_user clamp_indices_tables)

lemma psb_loop_reset:
  "reset_needed K ioc (for_loop n (process_scale_bank_ch K ioc) f) n = reset_needed K ioc f n"
  by (simp add: reset_needed_def clamp_indices_scale_bank psb_loop_scale_bank
        psb_loop_old_scale_bank psb_loop_same)

lemma psb_loop_clamped:
  "scale_bank (clamp_indices K n (for_loop n (process_scale_bank_ch K ioc) f)) n
     = scale_bank (clamp_indices K n f) n"
  by (simp add: clamp_indices_scale_bank psb_loop_scale_bank)

lemma psb_loop_c_hiq:
  "c_hiq (for_loop n (process_scale_bank_ch K ioc) f) i =
     (if i < n \<and> reset_needed K ioc f i
      then (if filter_type f = MAXQ
            then (if uint (scale_bank (clamp_indices K i f) i) = int (NUM_SCALEBANKS K) - 1
                  then UserScaleBank
                  else PresetMaxq (unat (scale_bank (clamp_indices K i f) i)))
            else if filter_mode f \<noteq> TWOPASS
            then PresetBpreHi (unat (scale_bank (clamp_indices K i f) i))
            else c_hiq f i)
      else c_hiq f i)"
proof (induction n arbitrary: i)
  case 0
  show ?case by simp
next
  case (Suc n)
  show ?case
    unfolding for_loop.simps psb_ch_c_hiq psb_loop_reset psb_loop_clamped psb_loop_same Suc.IH
    by (auto simp: less_Suc_eq)
qed

lemma psb_loop_c_loq:
  "c_loq (for_loop n (process_scale_bank_ch K ioc) f) i =
     (if i < n \<and> reset_needed K ioc f i \<and> filter_type f = BPRE \<and> filter_mode f \<noteq> TWOPASS
      then PresetBpreLo (unat (scale_bank (clamp_indices K i f) i)) else c_loq f i)"
proof (induction n arbitrary: i)
  case 0
  show ?case by simp
next
  case (Suc n)
  show ?case
    unfolding for_loop.simps psb_ch_c_loq psb_loop_reset psb_loop_clamped psb_loop_same Suc.IH
    by (auto simp: less_Suc_eq)
qed

lemma psb_loop_user:
  "user_scale_bank (for_loop n (process_scale_bank_ch K ioc) f) = user_scale_bank f"
  by (induction n) (simp_all add: psb_ch_user)

lemma psb_tables:
  "c_hiq (process_scale_bank K ioc f) i =
     (if i < NUM_CHANNELS \<and> reset_needed K ioc f i
      then (if filter_type f = MAXQ
            then (if uint (scale_bank (clamp_indices K i f) i) = int (NUM_SCALEBANKS K) - 1
                  then UserScaleBank
                  else PresetMaxq (unat (scale_bank (clamp_indices K i f) i)))
            else if filter_mode f \<noteq> TWOPASS
            then PresetBpreHi (unat (scale_bank (clamp_indices K i f) i))
            else c_hiq f i)
      else c_hiq f i)"
  "c_loq (process_scale_bank K ioc f) i =
     (if i < NUM_CHANNELS \<and> reset_needed K ioc f i \<and> filter_type f = BPRE \<and> filter_mode f \<noteq> TWOPASS
      then PresetBpreLo (unat (scale_bank (clamp_indices K i f) i)) else c_loq f i)"
  "user_scale_bank (process_scale_bank K ioc f) = user_scale_bank f"
  by (simp_all add: process_scale_bank_def psb_loop_c_hiq psb_loop_c_loq psb_loop_user)



section \<open>The noise selector\<close>

text \<open>
  Claim C10: for every noise colour selector other than 0, 1 and 2, \<open>generateNoise\<close>
  draws from the pink source and returns \<open>pink.next() * 10 - 5\<close>, exactly as for the
  selector 1 (same value, same new state of the generators).
\<close>

theorem C10_noise_default_is_pink:
  assumes "noiseSelected a \<noteq> 0" "noiseSelected a \<noteq> 1" "noiseSelected a \<noteq> 2"
  shows "generateNoise E a
           = (fst (pink_next E (pink a)) * 10 - 5, a\<lparr>pink := snd (pink_next E (pink a))\<rparr>)
       \<and> fst (generateNoise E a) = fst (generateNoise E (a\<lparr>noiseSelected := 1\<rparr>))
       \<and> snd (generateNoise E a)
           = (snd (generateNoise E (a\<lparr>noiseSelected := 1\<rparr>)))\<lparr>noiseSelected := noiseSelected a\<rparr>"
  using assms by (simp add: generateNoise_def split_beta)

theorem C10_witness:
  "generateNoise example_env idle_audio = (0, idle_audio\<lparr>pink := Suc 0\<rparr>)
   \<and> fst (generateNoise example_env idle_audio)
        = fst (generateNoise example_env (idle_audio\<lparr>noiseSelected := 1\<rparr>))"
proof -
  have n: "noiseSelected idle_audio \<noteq> 0" "noiseSelected idle_audio \<noteq> 1"
    "noiseSelected idle_audio \<noteq> 2"
    by (simp_all add: idle_audio_def)
  have p: "pink_next example_env (pink idle_audio) = (1 / 2, Suc 0)"
    by (simp add: example_env_def idle_audio_def)
  from C10_noise_default_is_pink[OF n, of example_env]
  have a: "generateNoise example_env idle_audio
           = (fst (pink_next example_env (pink idle_audio)) * 10 - 5,
              idle_audio\<lparr>pink := snd (pink_next example_env (pink idle_audio))\<rparr>)"
    and b: "fst (generateNoise example_env idle_audio)
        = fst (generateNoise example_env (idle_audio\<lparr>noiseSelected := 1\<rparr>))"
    by blast+
  from a have "generateNoise example_env idle_audio = (0, idle_audio\<lparr>pink := Suc 0\<rparr>)"
    unfolding p by simp
  with b show ?thesis by blast
qed

section \<open>Coefficients of the three filters\<close>

text \<open>
  Claim C3: in two-pass mode the crossfade ratio \<open>ratio_a\<close> is 1 for every Q value at
  or below \<open>CROSSFADE_MIN\<close>, 0 for every Q value at or above \<open>CROSSFADE_MAX\<close>, and
  between the two it is the ramp \<open>1 - (qc - CROSSFADE_MIN) / CROSSFADE_WIDTH\<close>, which
  strictly decreases in the Q value. The three constants come from the missing header;
  the width is taken positive and equal to the distance between the thresholds.
\<close>

theorem C3_crossfade_ratio:
  assumes "0 < CROSSFADE_WIDTH K" "CROSSFADE_MAX K = CROSSFADE_MIN K + CROSSFADE_WIDTH K"
  shows "(real (qval (q w) ch) \<le> CROSSFADE_MIN K \<longrightarrow> ratio_a (twopass_coefs K T w ch) = 1)
       \<and> (CROSSFADE_MAX K \<le> real (qval (q w) ch) \<longrightarrow> ratio_a (twopass_coefs K T w ch) = 0)
       \<and> (CROSSFADE_MIN K < real (qval (q w) ch) \<and> real (qval (q w) ch) < CROSSFADE_MAX K \<longrightarrow>
            ratio_a (twopass_coefs K T w ch)
              = 1 - (real (qval (q w) ch) - CROSSFADE_MIN K) / CROSSFADE_WIDTH K)
       \<and> (CROSSFADE_MIN K < real (qval (q w) ch) \<and> qval (q w) ch < qval (q w') ch'
            \<and> real (qval (q w') ch') < CROSSFADE_MAX K \<longrightarrow>
            ratio_a (twopass_coefs K T w' ch') < ratio_a (twopass_coefs K T w ch))"
proof -
  have r: "ratio_a (twopass_coefs K T v c) =
      (if real (qval (q v) c) < CROSSFADE_MIN K then 1
       else if real (qval (q v) c) > CROSSFADE_MAX K then 0
       else 1 - (real (qval (q v) c) - CROSSFADE_MIN K) / CROSSFADE_WIDTH K)" for v c
    by (simp add: twopass_coefs_def Let_def)
  have 1: "real (qval (q w) ch) \<le> CROSSFADE_MIN K \<Longrightarrow> ratio_a (twopass_coefs K T w ch) = 1"
    using assms by (auto simp: r)
  have 2: "CROSSFADE_MAX K \<le> real (qval (q w) ch) \<Longrightarrow> ratio_a (twopass_coefs K T w ch) = 0"
    using assms by (auto simp: r)
  have 3: "CROSSFADE_MIN K < real (qval (q w) ch) \<Longrightarrow> real (qval (q w) ch) < CROSSFADE_MAX K \<Longrightarrow>
            ratio_a (twopass_coefs K T w ch)
              = 1 - (real (qval (q w) ch) - CROSSFADE_MIN K) / CROSSFADE_WIDTH K"
    by (simp add: r)
  have 4: "ratio_a (twopass_coefs K T w' ch') < ratio_a (twopass_coefs K T w ch)"
    if "CROSSFADE_MIN K < real (qval (q w) ch)" "qval (q w) ch < qval (q w') ch'"
      "real (qval (q w') ch') < CROSSFADE_MAX K"
  proof -
    have lt: "real (qval (q w) ch) < real (qval (q w') ch')" using that(2) by simp
    have "(real (qval (q w) ch) - CROSSFADE_MIN K) / CROSSFADE_WIDTH K
          < (real (qval (q w') ch') - CROSSFADE_MIN K) / CROSSFADE_WIDTH K"
      using lt assms(1) by (simp add: divide_strict_right_mono)
    then show ?thesis using that lt by (simp add: r)
  qed
  from 1 2 3 4 show ?thesis by blast
qed


theorem C3_witness:
  "0 < CROSSFADE_WIDTH example_config
   \<and> CROSSFADE_MAX example_config = CROSSFADE_MIN example_config + CROSSFADE_WIDTH example_config
   \<and> ratio_a (twopass_coefs example_config example_tables (with_qval 1830 example_world) 0) = 1
   \<and> ratio_a (twopass_coefs example_config example_tables (with_qval 3630 example_world) 0) = 0
   \<and> ratio_a (twopass_coefs example_config example_tables (with_qval 2730 example_world) 0) = 1 / 2
   \<and> ratio_a (twopass_coefs example_config example_tables (with_qval 2731 example_world) 0)
       < ratio_a (twopass_coefs example_config example_tables (with_qval 2730 example_world) 0)"
proof -
  have K: "0 < CROSSFADE_WIDTH example_config"
    "CROSSFADE_MAX example_config = CROSSFADE_MIN example_config + CROSSFADE_WIDTH example_config"
    by (simp_all add: example_config_def)
  have v: "qval (q (with_qval n example_world)) c = n" for n c
    by (simp add: with_qval_def)
  have m: "CROSSFADE_MIN example_config = 1830" "CROSSFADE_MAX example_config = 3630"
    "CROSSFADE_WIDTH example_config = 1800"
    by (simp_all add: example_config_def)
  show ?thesis
    using K
      C3_crossfade_ratio[OF K, of "with_qval 1830 example_world" 0 example_tables]
      C3_crossfade_ratio[OF K, of "with_qval 3630 example_world" 0 example_tables]
      C3_crossfade_ratio[OF K, of "with_qval 2730 example_world" 0 example_tables
        "with_qval 2731 example_world" 0]
    by (simp add: v m)
qed

text \<open>The float literals of the model are the binary32 numbers nearest to the decimals
  the source spells.\<close>

lemma literal_values:
  "\<bar>hard_limit - 1.30899581\<bar> < 1 / 2 ^ 24"
  "\<bar>8589935 / 4294967296 - (0.002::real)\<bar> < 1 / 2 ^ 33"
  "\<bar>8371831 / 8388608 - (0.998::real)\<bar> < 1 / 2 ^ 25"
  by (simp_all add: hard_limit_def)






section \<open>The block: frames, morphing and the pending filter type\<close>

lemma for_loop_frame:
  assumes "\<And>i s. g (body i s) = g s"
  shows "g (for_loop n body s) = g s"
  by (induction n) (simp_all add: assms)

lemma flag_clip_frame:
  "flt (flag_clip K x w) = flt w"
  "q (flag_clip K x w) = q w"
  "tuning (flag_clip K x w) = tuning w"
  "rotation (flag_clip K x w) = rotation w"
  "envelope (flag_clip K x w) = envelope w"
  "levels (flag_clip K x w) = levels w"
  "io_in (io (flag_clip K x w)) = io_in (io w)"
  "io_out (io (flag_clip K x w)) = io_out (io w)"
  "FREQSCALE (io (flag_clip K x w)) = FREQSCALE (io w)"
  "GLIDE_SWITCH (io (flag_clip K x w)) = GLIDE_SWITCH (io w)"
  "USER_SCALE_CHANGED (io (flag_clip K x w)) = USER_SCALE_CHANGED (io w)"
  by (simp_all add: flag_clip_def)

lemma reads_fields:
  assumes "filter_reads v = filter_reads w"
  shows "q v = q w \<and> tuning v = tuning w \<and> rotation v = rotation w \<and> levels v = levels w
       \<and> io_in (io v) = io_in (io w) \<and> FREQSCALE (io v) = FREQSCALE (io w)
       \<and> GLIDE_SWITCH (io v) = GLIDE_SWITCH (io w)
       \<and> scale (flt v) = scale (flt w) \<and> note_ch (flt v) = note_ch (flt w)
       \<and> c_hiq (flt v) = c_hiq (flt w) \<and> c_loq (flt v) = c_loq (flt w)
       \<and> bpretuning (flt v) = bpretuning (flt w)
       \<and> user_scale_bank (flt v) = user_scale_bank (flt w)"
  using assms by (simp add: filter_reads_def)

lemma sample_reads:
  "filter_reads (w\<lparr>flt := twopass_sample c A j i x (flt w)\<rparr>) = filter_reads w"
  "filter_reads (w\<lparr>flt := onepass_sample c A j i x (flt w)\<rparr>) = filter_reads w"
  "filter_reads (w\<lparr>flt := bpre_sample c A j i x (flt w)\<rparr>) = filter_reads w"
  "filter_reads (flag_clip K x w) = filter_reads w"
  "filter_reads (w\<lparr>envelope := e\<rparr>) = filter_reads w"
  by (simp_all add: filter_reads_def twopass_sample_def onepass_sample_def bpre_sample_def Let_def
        flag_clip_frame)

lemma loops_reads:
  "filter_reads (twopass_src_loop K c A ch w) = filter_reads w"
  "filter_reads (twopass_dest_loop K c A ch w) = filter_reads w"
  "filter_reads (onepass_loop K c A j ch w) = filter_reads w"
  "filter_reads (bpre_loop K c A j ch w) = filter_reads w"
  "filter_reads (set_voct ch v w) = filter_reads w"
  "filter_reads (glide_voct ch v w) = filter_reads w"
  by (simp_all add: twopass_src_loop_def twopass_dest_loop_def onepass_loop_def bpre_loop_def
        set_voct_def glide_voct_def Let_def for_loop_frame sample_reads)

lemma twopass_channel_reads: "filter_reads (twopass_channel K T ch w) = filter_reads w"
  by (simp add: twopass_channel_def Let_def loops_reads)

lemma onepass_row_reads: "filter_reads (onepass_row K T j w) = filter_reads w"
  by (simp add: onepass_row_def Let_def loops_reads)

lemma bpre_row_reads: "filter_reads (bpre_row K T j w) = filter_reads w"
  by (simp add: bpre_row_def Let_def loops_reads)

lemma clear_flag_reads:
  "filter_reads (w\<lparr>io := (io w)\<lparr>INPUT_CLIP := b\<rparr>\<rparr>) = filter_reads w"
  by (simp add: filter_reads_def)

lemma run_filter_reads: "filter_reads (run_filter K T w) = filter_reads w"
  by (simp add: run_filter_def filter_twopass_def filter_onepass_def filter_bpre_def
        for_loop_frame twopass_channel_reads onepass_row_reads bpre_row_reads clear_flag_reads)

lemma sample_control:
  "control (w\<lparr>flt := twopass_sample c A j i x (flt w)\<rparr>) = control w"
  "control (w\<lparr>flt := onepass_sample c A j i x (flt w)\<rparr>) = control w"
  "control (w\<lparr>flt := bpre_sample c A j i x (flt w)\<rparr>) = control w"
  "control (flag_clip K x w) = control w"
  "control (w\<lparr>envelope := e\<rparr>) = control w"
  "control (w\<lparr>io := ioc\<rparr>) = control w"
  "control (w\<lparr>q := qq\<rparr>) = control w"
  "control (w\<lparr>rotation := r\<rparr>) = control w"
  by (simp_all add: control_def twopass_sample_def onepass_sample_def bpre_sample_def Let_def
        flag_clip_frame)

lemma loops_control:
  "control (twopass_src_loop K c A ch w) = control w"
  "control (twopass_dest_loop K c A ch w) = control w"
  "control (onepass_loop K c A j ch w) = control w"
  "control (bpre_loop K c A j ch w) = control w"
  "control (set_voct ch v w) = control w"
  "control (glide_voct ch v w) = control w"
  by (simp_all add: twopass_src_loop_def twopass_dest_loop_def onepass_loop_def bpre_loop_def
        set_voct_def glide_voct_def Let_def for_loop_frame sample_control)

lemma twopass_channel_control: "control (twopass_channel K T ch w) = control w"
  by (simp add: twopass_channel_def Let_def loops_control)

lemma onepass_row_control: "control (onepass_row K T j w) = control w"
  by (simp add: onepass_row_def Let_def loops_control)

lemma bpre_row_control: "control (bpre_row K T j w) = control w"
  by (simp add: bpre_row_def Let_def loops_control)

lemma run_filter_control: "control (run_filter K T w) = control w"
  by (simp add: run_filter_def filter_twopass_def filter_onepass_def filter_bpre_def
        for_loop_frame twopass_channel_control onepass_row_control bpre_row_control sample_control)

lemma morph_sample_frame:
  "flt (morph_sample i j w) = flt w"
  "rotation (morph_sample i j w) = rotation w"
  "levels (morph_sample i j w) = levels w"
  "control (morph_sample i j w) = control w"
  by (simp_all add: morph_sample_def Let_def control_def)

lemma morph_sample_out:
  "io_out (io (morph_sample i j w)) j' i' =
     (if j' = j \<and> i' = i
      then (if motion_morphpos (rotation w) j = 0 then filter_out (flt w) j i else f_blended w j i)
             * channel_level (levels w) j
      else io_out (io w) j' i')"
  by (simp add: morph_sample_def Let_def)

lemma f_blended_cong:
  "flt v = flt w \<Longrightarrow> rotation v = rotation w \<Longrightarrow> f_blended v = f_blended w"
  by (simp add: f_blended_def fun_eq_iff)

lemma morph_row_frame:
  "flt (for_loop n (morph_sample i) w) = flt w"
  "rotation (for_loop n (morph_sample i) w) = rotation w"
  "levels (for_loop n (morph_sample i) w) = levels w"
  "control (for_loop n (morph_sample i) w) = control w"
  by (induction n) (simp_all add: morph_sample_frame)

lemma morph_row_out:
  "io_out (io (for_loop n (morph_sample i) w)) j' i' =
     (if j' < n \<and> i' = i
      then (if motion_morphpos (rotation w) j' = 0 then filter_out (flt w) j' i else f_blended w j' i)
             * channel_level (levels w) j'
      else io_out (io w) j' i')"
proof (induction n arbitrary: j' i')
  case 0
  show ?case by simp
next
  case (Suc n)
  have fb: "f_blended (for_loop n (morph_sample i) w) = f_blended w"
    by (rule f_blended_cong) (simp_all add: morph_row_frame)
  show ?case
    by (auto simp: morph_sample_out Suc.IH morph_row_frame fb less_Suc_eq)
qed

lemma morphing_frame:
  "flt (morphing K w) = flt w"
  "rotation (morphing K w) = rotation w"
  "levels (morphing K w) = levels w"
  "control (morphing K w) = control w"
proof -
  have "flt (for_loop n (\<lambda>i. for_loop NUM_CHANNELS (morph_sample i)) w) = flt w
      \<and> rotation (for_loop n (\<lambda>i. for_loop NUM_CHANNELS (morph_sample i)) w) = rotation w
      \<and> levels (for_loop n (\<lambda>i. for_loop NUM_CHANNELS (morph_sample i)) w) = levels w
      \<and> control (for_loop n (\<lambda>i. for_loop NUM_CHANNELS (morph_sample i)) w) = control w" for n
    by (induction n) (simp_all add: morph_row_frame)
  then show "flt (morphing K w) = flt w" "rotation (morphing K w) = rotation w"
    "levels (morphing K w) = levels w" "control (morphing K w) = control w"
    by (simp_all add: morphing_def)
qed

lemma morphing_out:
  "io_out (io (morphing K w)) j i =
     (if j < NUM_CHANNELS \<and> i < NUM_SAMPLES K
      then (if motion_morphpos (rotation w) j = 0 then filter_out (flt w) j i else f_blended w j i)
             * channel_level (levels w) j
      else io_out (io w) j i)"
proof -
  let ?L = "\<lambda>n. for_loop n (\<lambda>i. for_loop NUM_CHANNELS (morph_sample i)) w"
  have fr: "flt (?L n) = flt w \<and> rotation (?L n) = rotation w \<and> levels (?L n) = levels w" for n
    by (induction n) (simp_all add: morph_row_frame)
  have "io_out (io (?L n)) j i =
     (if j < NUM_CHANNELS \<and> i < n
      then (if motion_morphpos (rotation w) j = 0 then filter_out (flt w) j i else f_blended w j i)
             * channel_level (levels w) j
      else io_out (io w) j i)" for n j i
  proof (induction n arbitrary: j i)
    case 0
    show ?case by simp
  next
    case (Suc n)
    have fb: "f_blended (?L n) = f_blended w"
      by (rule f_blended_cong) (simp_all add: fr)
    show ?case
      by (auto simp: morph_row_out Suc.IH fr fb less_Suc_eq)
  qed
  then show ?thesis by (simp add: morphing_def)
qed

lemma level_channel_frame:
  "flt (level_channel K j w) = flt w"
  "io_out (io (level_channel K j w)) = io_out (io w)"
  "control (level_channel K j w) = control w"
  by (simp_all add: level_channel_def Let_def control_def)

lemma level_loop_frame:
  "flt (for_loop n (level_channel K) w) = flt w"
  "io_out (io (for_loop n (level_channel K) w)) = io_out (io w)"
  "control (for_loop n (level_channel K) w) = control w"
  by (induction n) (simp_all add: level_channel_frame)

text \<open>
  Claim C6: for every channel \<open>j\<close> and sample \<open>i\<close> of a block, the output
  \<open>io->out[j][i]\<close> is the blend of the source row \<open>filter_out[j][i]\<close> and the
  destination row \<open>filter_out[j+6][i]\<close> by the channel's morph position, times the
  channel level: the source alone at position 0, the destination alone at position 1.
  The rows, the position and the level are those of the state in which the morphing loop
  starts (after the filter has run and the morph has been updated).
\<close>

theorem C6_morph_blend:
  assumes "j < NUM_CHANNELS" "i < NUM_SAMPLES K"
  shows "io_out (io (process_audio_block K T E w)) j i
           = (filter_out (flt (block_filtered K T E w)) j i
                * (1 - motion_morphpos (rotation (block_filtered K T E w)) j)
              + filter_out (flt (block_filtered K T E w)) (j + 6) i
                * motion_morphpos (rotation (block_filtered K T E w)) j)
             * channel_level (levels (block_filtered K T E w)) j
       \<and> (motion_morphpos (rotation (block_filtered K T E w)) j = 0 \<longrightarrow>
            io_out (io (process_audio_block K T E w)) j i
              = filter_out (flt (block_filtered K T E w)) j i
                  * channel_level (levels (block_filtered K T E w)) j)
       \<and> (motion_morphpos (rotation (block_filtered K T E w)) j = 1 \<longrightarrow>
            io_out (io (process_audio_block K T E w)) j i
              = filter_out (flt (block_filtered K T E w)) (j + 6) i
                  * channel_level (levels (block_filtered K T E w)) j)"
proof -
  let ?w = "block_filtered K T E w"
  have "io_out (io (process_audio_block K T E w)) j i = io_out (io (morphing K ?w)) j i"
    by (simp add: process_audio_block_def Let_def level_loop_frame)
  also have "\<dots> = (if motion_morphpos (rotation ?w) j = 0 then filter_out (flt ?w) j i
                    else f_blended ?w j i) * channel_level (levels ?w) j"
    using assms by (simp add: morphing_out)
  finally have out: "io_out (io (process_audio_block K T E w)) j i
      = (if motion_morphpos (rotation ?w) j = 0 then filter_out (flt ?w) j i
         else f_blended ?w j i) * channel_level (levels ?w) j" .
  show ?thesis
    unfolding out by (simp add: f_blended_def NUM_CHANNELS_def)
qed

theorem C6_witness:
  "io_out (io (process_audio_block example_config example_tables example_externals example_world)) 0 0
     = filter_out (flt (block_filtered example_config example_tables example_externals example_world)) 0 0
   \<and> io_out (io (process_audio_block example_config example_tables example_externals morphed_world)) 0 0
     = filter_out (flt (block_filtered example_config example_tables example_externals morphed_world)) 6 0"
proof -
  have h: "0 < NUM_CHANNELS" "0 < NUM_SAMPLES example_config"
    by (simp_all add: NUM_CHANNELS_def example_config_def)
  have fr: "rotation (block_filtered K T example_externals w) = rotation w
      \<and> levels (block_filtered K T example_externals w) = levels w" for K T w
  proof -
    have "filter_reads (run_filter K T (block_prepared K example_externals w))
        = filter_reads (block_prepared K example_externals w)"
      by (rule run_filter_reads)
    from reads_fields[OF this] show ?thesis
      by (simp add: block_filtered_def block_prepared_def Let_def example_externals_def)
  qed
  have m0: "motion_morphpos (rotation example_world) 0 = 0"
    "channel_level (levels example_world) 0 = 1"
    "motion_morphpos (rotation morphed_world) 0 = 1"
    "channel_level (levels morphed_world) 0 = 1"
    by (simp_all add: example_world_def morphed_world_def)
  show ?thesis
    using C6_morph_blend[OF h, of example_tables example_externals example_world]
      C6_morph_blend[OF h, of example_tables example_externals morphed_world]
    by (simp add: fr m0)
qed

lemma psb_control:
  "control (w\<lparr>flt := process_scale_bank K ioc f\<rparr>) = control (w\<lparr>flt := f\<rparr>)"
  by (simp add: control_def process_scale_bank_def psb_loop_same)

lemma block_prepared_control:
  "control (block_prepared K E w) = control (w\<lparr>flt := apply_pending_type (flt w)\<rparr>)"
  by (simp add: block_prepared_def Let_def sample_control psb_control)

lemma process_audio_block_control:
  "filter_type (flt (process_audio_block K T E w)) = filter_type (flt (block_prepared K E w))"
  "new_filter_type (flt (process_audio_block K T E w)) = new_filter_type (flt (block_prepared K E w))"
  "filter_mode (flt (process_audio_block K T E w)) = filter_mode (flt (block_prepared K E w))"
  "\<not> filter_type_changed (flt (process_audio_block K T E w))"
proof -
  have "control (for_loop NUM_CHANNELS (level_channel K) (morphing K (block_filtered K T E w)))
      = control (block_prepared K E w)"
    by (simp add: level_loop_frame morphing_frame block_filtered_def Let_def sample_control
          run_filter_control)
  then show
    "filter_type (flt (process_audio_block K T E w)) = filter_type (flt (block_prepared K E w))"
    "new_filter_type (flt (process_audio_block K T E w)) = new_filter_type (flt (block_prepared K E w))"
    "filter_mode (flt (process_audio_block K T E w)) = filter_mode (flt (block_prepared K E w))"
    "\<not> filter_type_changed (flt (process_audio_block K T E w))"
    by (simp_all add: process_audio_block_def Let_def control_def)
qed

lemma apply_pending_type_eq:
  "apply_pending_type f = f\<lparr>filter_type := block_type f\<rparr>"
  by (simp add: apply_pending_type_def block_type_def)

lemma block_prepared_type:
  "filter_type (flt (block_prepared K E w)) = block_type (flt w)"
  "filter_mode (flt (block_prepared K E w)) = filter_mode (flt w)"
proof -
  have "control (block_prepared K E w) = control (w\<lparr>flt := apply_pending_type (flt w)\<rparr>)"
    by (rule block_prepared_control)
  then show "filter_type (flt (block_prepared K E w)) = block_type (flt w)"
    "filter_mode (flt (block_prepared K E w)) = filter_mode (flt w)"
    by (simp_all add: control_def apply_pending_type_eq)
qed

lemma process_audio_block_under_type:
  "process_audio_block K T E w = block_under_type (block_type (flt w)) K T E w"
proof -
  let ?w3 = "block_prepared K E w"
  have p: "?w3 =
      (w\<lparr>flt := process_scale_bank K (io w) ((flt w)\<lparr>filter_type := block_type (flt w)\<rparr>)\<rparr>)
       \<lparr>q := run_q_update E
          (w\<lparr>flt := process_scale_bank K (io w) ((flt w)\<lparr>filter_type := block_type (flt w)\<rparr>)\<rparr>)\<rparr>"
    by (simp add: block_prepared_def Let_def apply_pending_type_eq)
  have r: "run_filter K T ?w3 =
      (if filter_mode (flt w) = TWOPASS then filter_twopass K T ?w3
       else if block_type (flt w) = MAXQ then filter_onepass K T ?w3
       else filter_bpre K T ?w3)"
    by (simp add: run_filter_def block_prepared_type)
  show ?thesis
    unfolding process_audio_block_def block_filtered_def r
    unfolding p block_under_type_def
    by (simp add: Let_def)
qed

lemma block_under_type_old:
  "block_under_type t K T E (w\<lparr>flt := (flt w)\<lparr>filter_type := t'\<rparr>\<rparr>) = block_under_type t K T E w"
  by (simp add: block_under_type_def)

lemma process_audio_block_tables:
  "c_hiq (flt (process_audio_block K T E w))
     = c_hiq (process_scale_bank K (io w) (apply_pending_type (flt w)))"
proof -
  have "filter_reads (run_filter K T (block_prepared K E w)) = filter_reads (block_prepared K E w)"
    by (rule run_filter_reads)
  from reads_fields[OF this]
  have "c_hiq (flt (run_filter K T (block_prepared K E w))) = c_hiq (flt (block_prepared K E w))"
    by blast
  then show ?thesis
    by (simp add: process_audio_block_def block_filtered_def block_prepared_def Let_def
          level_loop_frame morphing_frame)
qed

lemma pending_tables:
  assumes "filter_type_changed f" "i < NUM_CHANNELS"
  shows "c_hiq (process_scale_bank K ioc (apply_pending_type f)) i =
     (if new_filter_type f = MAXQ
      then (if uint (scale_bank (clamp_indices K i f) i) = int (NUM_SCALEBANKS K) - 1
            then UserScaleBank
            else PresetMaxq (unat (scale_bank (clamp_indices K i f) i)))
      else if filter_mode f \<noteq> TWOPASS
      then PresetBpreHi (unat (scale_bank (clamp_indices K i f) i))
      else c_hiq f i)"
proof -
  let ?g = "apply_pending_type f"
  have g: "filter_type ?g = new_filter_type f" "filter_mode ?g = filter_mode f"
    "c_hiq ?g = c_hiq f" "filter_type_changed ?g"
    "scale_bank (clamp_indices K i ?g) i = scale_bank (clamp_indices K i f) i"
    using assms(1) by (simp_all add: apply_pending_type_def clamp_indices_scale_bank)
  have r: "reset_needed K ioc ?g i"
    using g(4) by (simp add: reset_needed_def)
  show ?thesis
    unfolding psb_tables g using r assms(2) by simp
qed

text \<open>
  Claim C5: \<open>change_filter_type\<close> leaves the active type alone and records the request,
  and the block that follows a recorded request for \<open>t\<close> is the block computed under
  \<open>t\<close> and ends with \<open>t\<close> active.
  \<open>process_audio_block\<close> is the block computed under one type from its first statement
  to its last, the pending type when a change is pending: the tables are resolved and the
  algorithm is chosen under it. When a change is pending the block does not depend on the
  type that was active before, and every channel's table pointer is the one of the
  pending type. No row of any of the three algorithms changes the type or mode fields;
  the type stays the same to the end of the block, where the pending flag is false.
\<close>

theorem C5_pending_filter_type:
  "filter_type (change_filter_type t f) = filter_type f
   \<and> (new_filter_type f \<noteq> t \<longrightarrow>
        filter_type_changed (change_filter_type t f) \<and> new_filter_type (change_filter_type t f) = t)
   \<and> (new_filter_type f \<noteq> t \<longrightarrow>
        process_audio_block K T E (w\<lparr>flt := change_filter_type t f\<rparr>)
          = block_under_type t K T E (w\<lparr>flt := change_filter_type t f\<rparr>)
        \<and> filter_type (flt (process_audio_block K T E (w\<lparr>flt := change_filter_type t f\<rparr>))) = t)
   \<and> process_audio_block K T E w = block_under_type (block_type (flt w)) K T E w
   \<and> (filter_type_changed (flt w) \<longrightarrow>
        process_audio_block K T E (w\<lparr>flt := (flt w)\<lparr>filter_type := t'\<rparr>\<rparr>)
          = process_audio_block K T E w)
   \<and> (filter_type_changed (flt w) \<and> i < NUM_CHANNELS \<longrightarrow>
        c_hiq (flt (process_audio_block K T E w)) i =
          (if new_filter_type (flt w) = MAXQ
           then (if uint (scale_bank (clamp_indices K i (flt w)) i) = int (NUM_SCALEBANKS K) - 1
                 then UserScaleBank
                 else PresetMaxq (unat (scale_bank (clamp_indices K i (flt w)) i)))
           else if filter_mode (flt w) \<noteq> TWOPASS
           then PresetBpreHi (unat (scale_bank (clamp_indices K i (flt w)) i))
           else c_hiq (flt w) i))
   \<and> control (for_loop n (twopass_channel K T) v) = control v
   \<and> control (for_loop n (onepass_row K T) v) = control v
   \<and> control (for_loop n (bpre_row K T) v) = control v
   \<and> filter_type (flt (block_prepared K E w))
        = (if filter_type_changed (flt w) then new_filter_type (flt w) else filter_type (flt w))
   \<and> control (run_filter K T (block_prepared K E w)) = control (block_prepared K E w)
   \<and> filter_type (flt (process_audio_block K T E w)) = filter_type (flt (block_prepared K E w))
   \<and> \<not> filter_type_changed (flt (process_audio_block K T E w))"
proof -
  have a: "filter_type (change_filter_type t f) = filter_type f"
    by (simp add: change_filter_type_def)
  have b: "new_filter_type f \<noteq> t \<Longrightarrow>
      filter_type_changed (change_filter_type t f) \<and> new_filter_type (change_filter_type t f) = t"
    by (simp add: change_filter_type_def)
  have c: "filter_type (flt (block_prepared K E w))
      = (if filter_type_changed (flt w) then new_filter_type (flt w) else filter_type (flt w))"
    by (simp add: block_prepared_type block_type_def)
  have h: "process_audio_block K T E (w\<lparr>flt := change_filter_type t f\<rparr>)
          = block_under_type t K T E (w\<lparr>flt := change_filter_type t f\<rparr>)
        \<and> filter_type (flt (process_audio_block K T E (w\<lparr>flt := change_filter_type t f\<rparr>))) = t"
    if "new_filter_type f \<noteq> t"
  proof -
    let ?w = "w\<lparr>flt := change_filter_type t f\<rparr>"
    have bt: "block_type (flt ?w) = t"
      using that by (simp add: block_type_def change_filter_type_def)
    have "process_audio_block K T E ?w = block_under_type (block_type (flt ?w)) K T E ?w"
      by (rule process_audio_block_under_type)
    moreover have "filter_type (flt (process_audio_block K T E ?w)) = block_type (flt ?w)"
      by (simp only: process_audio_block_control(1) block_prepared_type)
    ultimately show ?thesis
      by (simp only: bt simp_thms)
  qed
  have d: "process_audio_block K T E (w\<lparr>flt := (flt w)\<lparr>filter_type := t'\<rparr>\<rparr>)
      = process_audio_block K T E w" if "filter_type_changed (flt w)"
  proof -
    have "block_type (flt (w\<lparr>flt := (flt w)\<lparr>filter_type := t'\<rparr>\<rparr>)) = block_type (flt w)"
      using that by (simp add: block_type_def)
    then show ?thesis
      by (simp only: process_audio_block_under_type block_under_type_old)
  qed
  have e: "c_hiq (flt (process_audio_block K T E w)) i =
          (if new_filter_type (flt w) = MAXQ
           then (if uint (scale_bank (clamp_indices K i (flt w)) i) = int (NUM_SCALEBANKS K) - 1
                 then UserScaleBank
                 else PresetMaxq (unat (scale_bank (clamp_indices K i (flt w)) i)))
           else if filter_mode (flt w) \<noteq> TWOPASS
           then PresetBpreHi (unat (scale_bank (clamp_indices K i (flt w)) i))
           else c_hiq (flt w) i)" if "filter_type_changed (flt w) \<and> i < NUM_CHANNELS"
    unfolding process_audio_block_tables using that by (simp only: pending_tables)
  have g: "control (for_loop n (twopass_channel K T) v) = control v"
    "control (for_loop n (onepass_row K T) v) = control v"
    "control (for_loop n (bpre_row K T) v) = control v"
    by (simp_all add: for_loop_frame twopass_channel_control onepass_row_control bpre_row_control)
  from a b c d e g h process_audio_block_under_type run_filter_control
    process_audio_block_control(1,4)
  show ?thesis by blast
qed

theorem C5_witness:
  "filter_type (change_filter_type BPRE stale_filter) = MAXQ
   \<and> filter_type_changed (change_filter_type BPRE stale_filter)
   \<and> filter_type (flt (process_audio_block example_config example_tables example_externals
         (example_world\<lparr>flt := change_filter_type BPRE stale_filter\<rparr>))) = BPRE
   \<and> \<not> filter_type_changed (flt (process_audio_block example_config example_tables example_externals
         (example_world\<lparr>flt := change_filter_type BPRE stale_filter\<rparr>)))
   \<and> c_hiq (flt (process_audio_block example_config example_tables example_externals
         (example_world\<lparr>flt := change_filter_type BPRE stale_filter\<rparr>))) 5 = PresetBpreHi 0
   \<and> c_hiq (flt (process_audio_block example_config example_tables example_externals
         (example_world\<lparr>flt := change_filter_type MAXQ bpre_filter\<rparr>))) 5 = PresetMaxq 0
   \<and> process_audio_block example_config example_tables example_externals
         (example_world\<lparr>flt := change_filter_type BPRE stale_filter\<rparr>)
       = block_under_type BPRE example_config example_tables example_externals
           (example_world\<lparr>flt := change_filter_type BPRE stale_filter\<rparr>)
   \<and> process_audio_block example_config example_tables example_externals
         (example_world\<lparr>flt := (change_filter_type BPRE stale_filter)\<lparr>filter_type := BPRE\<rparr>\<rparr>)
       = process_audio_block example_config example_tables example_externals
           (example_world\<lparr>flt := change_filter_type BPRE stale_filter\<rparr>)"
proof -
  let ?w = "example_world\<lparr>flt := change_filter_type BPRE stale_filter\<rparr>"
  let ?v = "example_world\<lparr>flt := change_filter_type MAXQ bpre_filter\<rparr>"
  have n: "new_filter_type stale_filter \<noteq> BPRE" "filter_type stale_filter = MAXQ"
    by (simp_all add: stale_filter_def)
  have f: "flt ?w = change_filter_type BPRE stale_filter"
    "flt ?v = change_filter_type MAXQ bpre_filter" by simp_all
  have w: "filter_type_changed (flt ?w)" "new_filter_type (flt ?w) = BPRE"
    "filter_mode (flt ?w) \<noteq> TWOPASS" "block_type (flt ?w) = BPRE"
    "scale_bank (clamp_indices example_config 5 (flt ?w)) 5 = 0"
    by (simp_all add: change_filter_type_def stale_filter_def block_type_def
          clamp_indices_scale_bank example_config_def)
  have v: "filter_type_changed (flt ?v)" "new_filter_type (flt ?v) = MAXQ"
    "scale_bank (clamp_indices example_config 5 (flt ?v)) 5 = 0"
    by (simp_all add: change_filter_type_def bpre_filter_def stale_filter_def
          clamp_indices_scale_bank example_config_def)
  have k: "(5::nat) < NUM_CHANNELS" "int (NUM_SCALEBANKS example_config) - 1 = 19"
    by (simp_all add: NUM_CHANNELS_def example_config_def)
  note W = C5_pending_filter_type[of BPRE stale_filter example_config example_tables
      example_externals ?w BPRE 5 0 example_world]
  note V = C5_pending_filter_type[of MAXQ bpre_filter example_config example_tables
      example_externals ?v MAXQ 5 0 example_world]
  from W have 1: "filter_type (change_filter_type BPRE stale_filter) = MAXQ"
    using n(2) by simp
  from W n(1) have 2: "filter_type_changed (change_filter_type BPRE stale_filter)"
    by blast
  from W have "filter_type (flt (block_prepared example_config example_externals ?w))
      = (if filter_type_changed (flt ?w) then new_filter_type (flt ?w) else filter_type (flt ?w))"
    and "filter_type (flt (process_audio_block example_config example_tables example_externals ?w))
      = filter_type (flt (block_prepared example_config example_externals ?w))"
    by blast+
  then have "filter_type (flt (process_audio_block example_config example_tables example_externals ?w))
      = (if filter_type_changed (flt ?w) then new_filter_type (flt ?w) else filter_type (flt ?w))"
    by (simp only:)
  then have 3: "filter_type (flt (process_audio_block example_config example_tables
      example_externals ?w)) = BPRE"
    using w(1,2) by (simp only: if_True)
  from W have 4: "\<not> filter_type_changed (flt (process_audio_block example_config example_tables
      example_externals ?w))"
    by blast
  from W w(1) k(1)
  have "c_hiq (flt (process_audio_block example_config example_tables example_externals ?w)) 5 =
          (if new_filter_type (flt ?w) = MAXQ
           then (if uint (scale_bank (clamp_indices example_config 5 (flt ?w)) 5)
                      = int (NUM_SCALEBANKS example_config) - 1
                 then UserScaleBank
                 else PresetMaxq (unat (scale_bank (clamp_indices example_config 5 (flt ?w)) 5)))
           else if filter_mode (flt ?w) \<noteq> TWOPASS
           then PresetBpreHi (unat (scale_bank (clamp_indices example_config 5 (flt ?w)) 5))
           else c_hiq (flt ?w) 5)"
    by blast
  then have 5: "c_hiq (flt (process_audio_block example_config example_tables example_externals ?w)) 5
      = PresetBpreHi 0"
    unfolding w(2,5) using w(3) by simp
  from V v(1) k(1)
  have "c_hiq (flt (process_audio_block example_config example_tables example_externals ?v)) 5 =
          (if new_filter_type (flt ?v) = MAXQ
           then (if uint (scale_bank (clamp_indices example_config 5 (flt ?v)) 5)
                      = int (NUM_SCALEBANKS example_config) - 1
                 then UserScaleBank
                 else PresetMaxq (unat (scale_bank (clamp_indices example_config 5 (flt ?v)) 5)))
           else if filter_mode (flt ?v) \<noteq> TWOPASS
           then PresetBpreHi (unat (scale_bank (clamp_indices example_config 5 (flt ?v)) 5))
           else c_hiq (flt ?v) 5)"
    by blast
  then have 6: "c_hiq (flt (process_audio_block example_config example_tables example_externals ?v)) 5
      = PresetMaxq 0"
    unfolding v(2,3) k(2) by simp
  from W n(1) have "process_audio_block example_config example_tables example_externals
         (?w\<lparr>flt := change_filter_type BPRE stale_filter\<rparr>)
       = block_under_type BPRE example_config example_tables example_externals
           (?w\<lparr>flt := change_filter_type BPRE stale_filter\<rparr>)"
    by blast
  then have 7: "process_audio_block example_config example_tables example_externals ?w
       = block_under_type BPRE example_config example_tables example_externals ?w"
    by simp
  from W w(1) have "process_audio_block example_config example_tables example_externals
         (?w\<lparr>flt := (flt ?w)\<lparr>filter_type := BPRE\<rparr>\<rparr>)
       = process_audio_block example_config example_tables example_externals ?w"
    by blast
  then have 8: "process_audio_block example_config example_tables example_externals
         (example_world\<lparr>flt := (change_filter_type BPRE stale_filter)\<lparr>filter_type := BPRE\<rparr>\<rparr>)
       = process_audio_block example_config example_tables example_externals ?w"
    by simp
  from 1 2 3 4 5 6 7 8 show ?thesis by blast
qed

section \<open>The resampling pipeline\<close>

lemma select_channels_frame:
  "nOutputBuffer (select_channels a) = nOutputBuffer a"
  "nInputBuffer (select_channels a) = nInputBuffer a"
  "amain (select_channels a) = amain a"
  "host_output (select_channels a) = host_output a"
  "outputChannels (select_channels a) = outputChannels a"
  "inputChannels (select_channels a) = inputChannels a"
  by (simp_all add: select_channels_def Let_def)

lemma generateNoise_frame:
  "nOutputBuffer (snd (generateNoise E a)) = nOutputBuffer a"
  "nInputBuffer (snd (generateNoise E a)) = nInputBuffer a"
  "nInputFrame (snd (generateNoise E a)) = nInputFrame a"
  "amain (snd (generateNoise E a)) = amain a"
  "host_output (snd (generateNoise E a)) = host_output a"
  "outChannels (snd (generateNoise E a)) = outChannels a"
  "inChannels (snd (generateNoise E a)) = inChannels a"
  "outputChannels (snd (generateNoise E a)) = outputChannels a"
  "inputChannels (snd (generateNoise E a)) = inputChannels a"
  by (simp_all add: generateNoise_def split_beta)

lemma populateInputBuffer_frame:
  "nOutputBuffer (populateInputBuffer E gv a) = nOutputBuffer a"
  "amain (populateInputBuffer E gv a) = amain a"
  "host_output (populateInputBuffer E gv a) = host_output a"
  "outChannels (populateInputBuffer E gv a) = outChannels a"
  "outputChannels (populateInputBuffer E gv a) = outputChannels a"
  unfolding populateInputBuffer_def
  by (rule for_loop_frame; simp add: Let_def split_beta generateNoise_frame)+

lemma populateAndResampleOutputBuffer_frame:
  "amain (populateAndResampleOutputBuffer K E a) = amain a"
  "host_output (populateAndResampleOutputBuffer K E a) = host_output a"
proof -
  have step: "amain (resample_output K E chan (accumulate_output K chan i b)) = amain b
      \<and> host_output (resample_output K E chan (accumulate_output K chan i b)) = host_output b"
    for chan i b
    by (simp add: resample_output_def accumulate_output_def Let_def split_beta)
  have row: "amain (for_loop n (\<lambda>i a. resample_output K E chan (accumulate_output K chan i a)) b) = amain b
      \<and> host_output (for_loop n (\<lambda>i a. resample_output K E chan (accumulate_output K chan i a)) b)
          = host_output b" for chan n b
    by (induction n) (simp_all add: step)
  have "amain (for_loop m (\<lambda>chan. for_loop (NUM_SAMPLES K)
                 (\<lambda>i a. resample_output K E chan (accumulate_output K chan i a))) a) = amain a
      \<and> host_output (for_loop m (\<lambda>chan. for_loop (NUM_SAMPLES K)
                 (\<lambda>i a. resample_output K E chan (accumulate_output K chan i a))) a) = host_output a"
    for m
    by (induction m) (simp_all add: row)
  then show "amain (populateAndResampleOutputBuffer K E a) = amain a"
    "host_output (populateAndResampleOutputBuffer K E a) = host_output a"
    by (simp_all add: populateAndResampleOutputBuffer_def)
qed

lemma resampleInput_host_output:
  "host_output (resampleInput K E a) = host_output a"
proof -
  have lane: "host_output (resample_lane K E i b) = host_output b" for i b
    by (simp add: resample_lane_def Let_def split_beta for_loop_frame)
  show ?thesis
    unfolding resampleInput_def by (rule for_loop_frame) (rule lane)
qed

lemma bufferReady_iff:
  "bufferReady a = (\<forall>chan<outChannels a. nOutputBuffer a chan \<noteq> [])"
proof -
  have "for_loop n (\<lambda>chan ready. ready \<and> nOutputBuffer a chan \<noteq> []) True
        = (\<forall>chan<n. nOutputBuffer a chan \<noteq> [])" for n
    by (induction n) (auto simp: less_Suc_eq)
  then show ?thesis by (simp add: bufferReady_def)
qed

text \<open>The shift loop of \<open>processOutputBuffer\<close>.\<close>

lemma shift_loop:
  "nOutputBuffer (for_loop n
       (\<lambda>chan a. a\<lparr>nOutputFrame := (nOutputFrame a)(chan := hd (nOutputBuffer a chan)),
                   nOutputBuffer := (nOutputBuffer a)(chan := tl (nOutputBuffer a chan))\<rparr>) a) c
     = (if c < n then tl (nOutputBuffer a c) else nOutputBuffer a c)"
  "amain (for_loop n
       (\<lambda>chan a. a\<lparr>nOutputFrame := (nOutputFrame a)(chan := hd (nOutputBuffer a chan)),
                   nOutputBuffer := (nOutputBuffer a)(chan := tl (nOutputBuffer a chan))\<rparr>) a) = amain a"
  "nInputBuffer (for_loop n
       (\<lambda>chan a. a\<lparr>nOutputFrame := (nOutputFrame a)(chan := hd (nOutputBuffer a chan)),
                   nOutputBuffer := (nOutputBuffer a)(chan := tl (nOutputBuffer a chan))\<rparr>) a)
     = nInputBuffer a"
  "outputChannels (for_loop n
       (\<lambda>chan a. a\<lparr>nOutputFrame := (nOutputFrame a)(chan := hd (nOutputBuffer a chan)),
                   nOutputBuffer := (nOutputBuffer a)(chan := tl (nOutputBuffer a chan))\<rparr>) a)
     = outputChannels a"
  "outChannels (for_loop n
       (\<lambda>chan a. a\<lparr>nOutputFrame := (nOutputFrame a)(chan := hd (nOutputBuffer a chan)),
                   nOutputBuffer := (nOutputBuffer a)(chan := tl (nOutputBuffer a chan))\<rparr>) a)
     = outChannels a"
  by (induction n arbitrary: c) (auto simp: less_Suc_eq)

lemma emit_loop:
  "nOutputBuffer (for_loop n
       (\<lambda>chan a. a\<lparr>host_output := setVoltage (nOutputFrame a chan * 5) chan (host_output a)\<rparr>) a)
     = nOutputBuffer a"
  "amain (for_loop n
       (\<lambda>chan a. a\<lparr>host_output := setVoltage (nOutputFrame a chan * 5) chan (host_output a)\<rparr>) a)
     = amain a"
  "nInputBuffer (for_loop n
       (\<lambda>chan a. a\<lparr>host_output := setVoltage (nOutputFrame a chan * 5) chan (host_output a)\<rparr>) a)
     = nInputBuffer a"
  by (induction n) simp_all

lemma processOutputBuffer_effect:
  "amain (processOutputBuffer a) = amain a"
  "nInputBuffer (processOutputBuffer a) = nInputBuffer a"
  "nOutputBuffer (processOutputBuffer a) c
     = (if bufferReady a \<and> c < outChannels a then tl (nOutputBuffer a c) else nOutputBuffer a c)"
  "\<not> bufferReady a \<Longrightarrow> voltage (host_output (processOutputBuffer a)) = voltage (host_output a)"
proof -
  have r: "bufferReady (a\<lparr>host_output := h\<rparr>) = bufferReady a" for h
    by (simp add: bufferReady_def)
  show "amain (processOutputBuffer a) = amain a"
    by (simp add: processOutputBuffer_def Let_def r shift_loop emit_loop)
  show "nInputBuffer (processOutputBuffer a) = nInputBuffer a"
    by (simp add: processOutputBuffer_def Let_def r shift_loop emit_loop)
  show "nOutputBuffer (processOutputBuffer a) c
     = (if bufferReady a \<and> c < outChannels a then tl (nOutputBuffer a c) else nOutputBuffer a c)"
    by (simp add: processOutputBuffer_def Let_def r shift_loop emit_loop)
  show "\<not> bufferReady a \<Longrightarrow> voltage (host_output (processOutputBuffer a)) = voltage (host_output a)"
    by (simp add: processOutputBuffer_def Let_def r)
qed

text \<open>
  Claim C8: on a call of \<open>nChannelProcess\<close>, buffering the input leaves the output
  buffers alone, so the test of the lane-0 output buffer sees the buffer as it was at
  the call. When it is empty, the engine state after the call is \<open>process_audio\<close>
  applied to the state with the resampled input. When it is not empty, the call is the
  input buffering followed by \<open>processOutputBuffer\<close>: the engine state is unchanged,
  one frame is taken from every active output lane when each of them has a frame, and
  otherwise no frame is taken and no voltage is set. When the lane-0 output buffer is
  empty after the cycle, the host output is not touched.
\<close>

theorem C8_engine_gating:
  "nOutputBuffer (populateInputBuffer E gv (select_channels a)) = nOutputBuffer a
   \<and> (nOutputBuffer a 0 = [] \<longrightarrow>
        amain (nChannelProcess K E gv a)
          = process_audio E (amain (resampleInput K E (populateInputBuffer E gv (select_channels a)))))
   \<and> (nOutputBuffer a 0 \<noteq> [] \<longrightarrow>
        nChannelProcess K E gv a = processOutputBuffer (populateInputBuffer E gv (select_channels a))
        \<and> amain (nChannelProcess K E gv a) = amain a
        \<and> (\<forall>c. nOutputBuffer (nChannelProcess K E gv a) c
               = (if (\<forall>chan<outChannels (select_channels a). nOutputBuffer a chan \<noteq> [])
                     \<and> c < outChannels (select_channels a)
                  then tl (nOutputBuffer a c) else nOutputBuffer a c))
        \<and> ((\<exists>chan<outChannels (select_channels a). nOutputBuffer a chan = []) \<longrightarrow>
              voltage (host_output (nChannelProcess K E gv a)) = voltage (host_output a)))
   \<and> (nOutputBuffer (process_cycle K E gv a) 0 = [] \<longrightarrow>
        nChannelProcess K E gv a = process_cycle K E gv a
        \<and> host_output (nChannelProcess K E gv a) = host_output a)"
proof -
  let ?a2 = "populateInputBuffer E gv (select_channels a)"
  have ob: "nOutputBuffer ?a2 = nOutputBuffer a"
    by (simp add: populateInputBuffer_frame select_channels_frame)
  have oc: "outChannels ?a2 = outChannels (select_channels a)"
    by (simp add: populateInputBuffer_frame)
  have m2: "amain ?a2 = amain a" and h2: "host_output ?a2 = host_output a"
    by (simp_all add: populateInputBuffer_frame select_channels_frame)
  have ready: "bufferReady ?a2 = (\<forall>chan<outChannels (select_channels a). nOutputBuffer a chan \<noteq> [])"
    by (simp add: bufferReady_iff ob oc)
  have empty: "amain (nChannelProcess K E gv a) = process_audio E (amain (resampleInput K E ?a2))"
    if "nOutputBuffer a 0 = []"
    using that
    by (simp add: nChannelProcess_def process_cycle_def Let_def ob processOutputBuffer_effect
          populateAndResampleOutputBuffer_frame)
  have cyc: "process_cycle K E gv a = ?a2" if "nOutputBuffer a 0 \<noteq> []"
    using that by (simp add: process_cycle_def Let_def ob)
  have full: "nChannelProcess K E gv a = processOutputBuffer ?a2" if "nOutputBuffer a 0 \<noteq> []"
    using that by (simp add: nChannelProcess_def Let_def cyc ob)
  have hc: "host_output (process_cycle K E gv a) = host_output a"
    by (simp add: process_cycle_def Let_def h2 populateAndResampleOutputBuffer_frame
          resampleInput_host_output)
  have quiet: "nChannelProcess K E gv a = process_cycle K E gv a
        \<and> host_output (nChannelProcess K E gv a) = host_output a"
    if "nOutputBuffer (process_cycle K E gv a) 0 = []"
    using that by (simp add: nChannelProcess_def Let_def hc)
  have pop: "nOutputBuffer (processOutputBuffer ?a2) c
               = (if (\<forall>chan<outChannels (select_channels a). nOutputBuffer a chan \<noteq> [])
                     \<and> c < outChannels (select_channels a)
                  then tl (nOutputBuffer a c) else nOutputBuffer a c)" for c
    by (auto simp: processOutputBuffer_effect ready ob oc)
  have hold: "voltage (host_output (processOutputBuffer ?a2)) = voltage (host_output a)"
    if "\<exists>chan<outChannels (select_channels a). nOutputBuffer a chan = []"
  proof -
    from that have "\<not> bufferReady ?a2" by (simp add: ready)
    then show ?thesis by (simp add: processOutputBuffer_effect h2)
  qed
  have m: "amain (processOutputBuffer ?a2) = amain a"
    by (simp add: processOutputBuffer_effect m2)
  show ?thesis
    using ob empty full quiet pop hold m hc by simp
qed

lemma store_input_in:
  "io_in (store_input n i j v ioc) c j' =
     (if j' = j \<and> c \<in> store_targets n i then v else io_in ioc c j')"
  by (auto simp: store_input_def store_targets_def)

lemma store_loop:
  fixes V :: "nat \<Rightarrow> int"
  shows "io_in (io (amain (for_loop n
            (\<lambda>j a. a\<lparr>amain := (amain a)\<lparr>io := store_input m i j (V j) (io (amain a))\<rparr>\<rparr>) a))) c j'
     = (if j' < n \<and> c \<in> store_targets m i then V j' else io_in (io (amain a)) c j')"
  by (induction n arbitrary: c j') (auto simp: store_input_in less_Suc_eq)

lemma store_loop_frame:
  "nInputFrames (for_loop n
      (\<lambda>j a. a\<lparr>amain := (amain a)\<lparr>io := F j a\<rparr>\<rparr>) a) = nInputFrames a"
  "inChannels (for_loop n
      (\<lambda>j a. a\<lparr>amain := (amain a)\<lparr>io := F j a\<rparr>\<rparr>) a) = inChannels a"
  "nInputBuffer (for_loop n
      (\<lambda>j a. a\<lparr>amain := (amain a)\<lparr>io := F j a\<rparr>\<rparr>) a) = nInputBuffer a"
  "nInputSrc (for_loop n
      (\<lambda>j a. a\<lparr>amain := (amain a)\<lparr>io := F j a\<rparr>\<rparr>) a) = nInputSrc a"
  "sampleRate (for_loop n
      (\<lambda>j a. a\<lparr>amain := (amain a)\<lparr>io := F j a\<rparr>\<rparr>) a) = sampleRate a"
  by (induction n) simp_all

lemma resample_store_loop:
  "io_in (io (amain (for_loop n
      (\<lambda>j a. a\<lparr>amain := (amain a)\<lparr>io := store_input (inChannels a) i j
             (to_int32 (clamp (nInputFrames a i j * MAX_12BIT K) (MIN_12BIT K) (MAX_12BIT K)))
             (io (amain a))\<rparr>\<rparr>) a))) c j'
     = (if j' < n \<and> c \<in> store_targets (inChannels a) i
        then input_sample K (nInputFrames a i j') else io_in (io (amain a)) c j')"
proof (induction n arbitrary: c j')
  case 0
  show ?case by simp
next
  case (Suc n)
  show ?case
    using Suc.IH
    by (auto simp: Let_def store_input_in store_loop_frame input_sample_def less_Suc_eq)
qed

lemma resample_store_loop_frame:
  "nInputFrames (for_loop n
      (\<lambda>j a. a\<lparr>amain := (amain a)\<lparr>io := store_input (inChannels a) i j
             (to_int32 (clamp (nInputFrames a i j * MAX_12BIT K) (MIN_12BIT K) (MAX_12BIT K)))
             (io (amain a))\<rparr>\<rparr>) a)
     = nInputFrames a"
  "inChannels (for_loop n
      (\<lambda>j a. a\<lparr>amain := (amain a)\<lparr>io := store_input (inChannels a) i j
             (to_int32 (clamp (nInputFrames a i j * MAX_12BIT K) (MIN_12BIT K) (MAX_12BIT K)))
             (io (amain a))\<rparr>\<rparr>) a)
     = inChannels a"
  "nInputBuffer (for_loop n
      (\<lambda>j a. a\<lparr>amain := (amain a)\<lparr>io := store_input (inChannels a) i j
             (to_int32 (clamp (nInputFrames a i j * MAX_12BIT K) (MIN_12BIT K) (MAX_12BIT K)))
             (io (amain a))\<rparr>\<rparr>) a)
     = nInputBuffer a"
  "nInputSrc (for_loop n
      (\<lambda>j a. a\<lparr>amain := (amain a)\<lparr>io := store_input (inChannels a) i j
             (to_int32 (clamp (nInputFrames a i j * MAX_12BIT K) (MIN_12BIT K) (MAX_12BIT K)))
             (io (amain a))\<rparr>\<rparr>) a)
     = nInputSrc a"
  "sampleRate (for_loop n
      (\<lambda>j a. a\<lparr>amain := (amain a)\<lparr>io := store_input (inChannels a) i j
             (to_int32 (clamp (nInputFrames a i j * MAX_12BIT K) (MIN_12BIT K) (MAX_12BIT K)))
             (io (amain a))\<rparr>\<rparr>) a)
     = sampleRate a"
  by (simp_all add: Let_def store_loop_frame)

text \<open>The frames of lane \<open>i\<close> after its converter has run on the lane's buffer.\<close>

lemma resample_lane_effect:
  assumes "src_process E (nInputSrc a i) (sampleRate a) 96000 (nInputBuffer a i) (NUM_SAMPLES K)
             = (r, inLen, produced)"
  shows "nInputBuffer (resample_lane K E i a) l
           = (if l = i then drop inLen (nInputBuffer a i) else nInputBuffer a l)"
    and "inChannels (resample_lane K E i a) = inChannels a"
    and "sampleRate (resample_lane K E i a) = sampleRate a"
    and "nInputSrc (resample_lane K E i a) l
           = (if l = i \<and> nInputBuffer a i \<noteq> [] then r else nInputSrc a l)"
    and "nInputFrames (resample_lane K E i a) l
           = (if l = i \<and> nInputBuffer a i \<noteq> []
              then (\<lambda>j. if j < length produced then produced ! j else nInputFrames a i j)
              else nInputFrames a l)"
    and "io_in (io (amain (resample_lane K E i a))) c j
           = (if nInputBuffer a i \<noteq> [] \<and> j < NUM_SAMPLES K \<and> c \<in> store_targets (inChannels a) i
              then input_sample K (if j < length produced then produced ! j else nInputFrames a i j)
              else io_in (io (amain a)) c j)"
  using assms
  by (auto simp: resample_lane_def Let_def resample_store_loop resample_store_loop_frame)

lemma example_lane_effect:
  "nInputBuffer (resample_lane K example_env i a) l = (if l = i then [] else nInputBuffer a l)"
  "inChannels (resample_lane K example_env i a) = inChannels a"
  "nInputFrames (resample_lane K example_env i a) l
     = (if l = i \<and> nInputBuffer a i \<noteq> []
        then (\<lambda>j. if j < length (take (NUM_SAMPLES K) (nInputBuffer a i))
                  then take (NUM_SAMPLES K) (nInputBuffer a i) ! j else nInputFrames a i j)
        else nInputFrames a l)"
  "io_in (io (amain (resample_lane K example_env i a))) c j
     = (if nInputBuffer a i \<noteq> [] \<and> j < NUM_SAMPLES K \<and> c \<in> store_targets (inChannels a) i
        then input_sample K (if j < length (take (NUM_SAMPLES K) (nInputBuffer a i))
                             then take (NUM_SAMPLES K) (nInputBuffer a i) ! j
                             else nInputFrames a i j)
        else io_in (io (amain a)) c j)"
proof -
  have e: "src_process example_env (nInputSrc a i) (sampleRate a) 96000 (nInputBuffer a i)
             (NUM_SAMPLES K)
           = (nInputSrc a i, length (nInputBuffer a i), take (NUM_SAMPLES K) (nInputBuffer a i))"
    by (simp add: example_env_def)
  show "nInputBuffer (resample_lane K example_env i a) l = (if l = i then [] else nInputBuffer a l)"
    by (simp add: resample_lane_effect(1)[OF e])
  show "inChannels (resample_lane K example_env i a) = inChannels a"
    by (rule resample_lane_effect(2)[OF e])
  show "nInputFrames (resample_lane K example_env i a) l
     = (if l = i \<and> nInputBuffer a i \<noteq> []
        then (\<lambda>j. if j < length (take (NUM_SAMPLES K) (nInputBuffer a i))
                  then take (NUM_SAMPLES K) (nInputBuffer a i) ! j else nInputFrames a i j)
        else nInputFrames a l)"
    by (rule resample_lane_effect(5)[OF e])
  show "io_in (io (amain (resample_lane K example_env i a))) c j
     = (if nInputBuffer a i \<noteq> [] \<and> j < NUM_SAMPLES K \<and> c \<in> store_targets (inChannels a) i
        then input_sample K (if j < length (take (NUM_SAMPLES K) (nInputBuffer a i))
                             then take (NUM_SAMPLES K) (nInputBuffer a i) ! j
                             else nInputFrames a i j)
        else io_in (io (amain a)) c j)"
    by (rule resample_lane_effect(6)[OF e])
qed

lemma populate_three:
  "nInputBuffer (populateInputBuffer example_env three_voltages (select_channels (stale_input_audio 3))) i
     = (if i = 0 then [1 / 10] else if i = 1 then [1 / 5] else if i = 2 then [3 / 10] else [])"
  "inChannels (populateInputBuffer example_env three_voltages (select_channels (stale_input_audio 3))) = 3"
  "io_in (io (amain (populateInputBuffer example_env three_voltages (select_channels (stale_input_audio 3)))))
     = (\<lambda>_ _. 7)"
  by (simp_all add: populateInputBuffer_def select_channels_def stale_input_audio_def idle_audio_def
        example_env_def three_voltages_def Let_def eval_nat_numeral)

lemma populate_three_frames:
  "nInputFrames (populateInputBuffer example_env three_voltages (select_channels (stale_input_audio 3)))
     = (\<lambda>_ _. 0)"
  by (simp add: populateInputBuffer_def select_channels_def stale_input_audio_def idle_audio_def
        example_env_def three_voltages_def Let_def eval_nat_numeral)

lemma example_samples:
  "input_sample example_config (1 / 10) = 409"
  "input_sample example_config (1 / 5) = 819"
  "input_sample example_config (3 / 10) = 1228"
  by (simp_all add: input_sample_def to_int32_def clamp_def example_config_def)

text \<open>
  Claim C2 asks that with three input channels all six channel slots carry one of the
  three lane signals in mirrored pairs. On the sample state (host voltages 0.5, 1 and 1.5
  on three channels, engine input block holding 7 from earlier) the slots 0, 1 and 2
  receive the three lanes and slot 3 a copy of lane 2, but lane 0 and lane 1 have no
  second slot left (each mirror is overwritten by the next lane) and the slots 4 and 5
  are never written: they still hold 7.
\<close>

theorem C2_three_channel_input:
  "io_in (io (amain (resampleInput example_config example_env
       (populateInputBuffer example_env three_voltages (select_channels (stale_input_audio 3)))))) 0 0 = 409
   \<and> io_in (io (amain (resampleInput example_config example_env
       (populateInputBuffer example_env three_voltages (select_channels (stale_input_audio 3)))))) 1 0 = 819
   \<and> io_in (io (amain (resampleInput example_config example_env
       (populateInputBuffer example_env three_voltages (select_channels (stale_input_audio 3)))))) 2 0 = 1228
   \<and> io_in (io (amain (resampleInput example_config example_env
       (populateInputBuffer example_env three_voltages (select_channels (stale_input_audio 3)))))) 3 0 = 1228
   \<and> io_in (io (amain (resampleInput example_config example_env
       (populateInputBuffer example_env three_voltages (select_channels (stale_input_audio 3)))))) 4 0 = 7
   \<and> io_in (io (amain (resampleInput example_config example_env
       (populateInputBuffer example_env three_voltages (select_channels (stale_input_audio 3)))))) 5 0 = 7"
proof -
  have n: "0 < NUM_SAMPLES example_config" by (simp add: example_config_def)
  show ?thesis
    using n
    by (simp add: resampleInput_def NUM_CHANNELS_def eval_nat_numeral example_lane_effect
          populate_three populate_three_frames store_targets_def example_samples)
qed

lemma populate_mono:
  "nInputBuffer (populateInputBuffer example_env (\<lambda>_. 1 / 2) (select_channels (stale_input_audio 1))) i
     = (if i = 0 then [1 / 10] else if i = 1 then [1 / 10] else [])"
  "inChannels (populateInputBuffer example_env (\<lambda>_. 1 / 2) (select_channels (stale_input_audio 1))) = 2"
  "io_in (io (amain (populateInputBuffer example_env (\<lambda>_. 1 / 2) (select_channels (stale_input_audio 1)))))
     = (\<lambda>_ _. 7)"
  "nInputFrames (populateInputBuffer example_env (\<lambda>_. 1 / 2) (select_channels (stale_input_audio 1)))
     = (\<lambda>_ _. 0)"
  by (simp_all add: populateInputBuffer_def select_channels_def stale_input_audio_def idle_audio_def
        example_env_def Let_def eval_nat_numeral)

text \<open>The first half of claim C2 on the sample state: one input channel at 0.5 V reaches
  all six channel slots with the same sample.\<close>

lemma mono_input_broadcast:
  assumes "c < NUM_CHANNELS"
  shows "io_in (io (amain (resampleInput example_config example_env
           (populateInputBuffer example_env (\<lambda>_. 1 / 2) (select_channels (stale_input_audio 1)))))) c 0
         = 409"
proof -
  have n: "0 < NUM_SAMPLES example_config" by (simp add: example_config_def)
  from assms have "c = 0 \<or> c = 1 \<or> c = 2 \<or> c = 3 \<or> c = 4 \<or> c = 5"
    by (auto simp: NUM_CHANNELS_def)
  then show ?thesis
    using n
    by (auto simp: resampleInput_def NUM_CHANNELS_def eval_nat_numeral example_lane_effect
          populate_mono store_targets_def example_samples)
qed

theorem C8_witness:
  "amain (nChannelProcess example_config example_env three_voltages idle_audio)
     = amain (resampleInput example_config example_env
                (populateInputBuffer example_env three_voltages (select_channels idle_audio)))
   \<and> nChannelProcess example_config example_env three_voltages draining_audio
     = processOutputBuffer (populateInputBuffer example_env three_voltages (select_channels draining_audio))
   \<and> amain (nChannelProcess example_config example_env three_voltages draining_audio) = amain draining_audio
   \<and> nOutputBuffer (nChannelProcess example_config example_env three_voltages draining_audio) 0 = [2]"
proof -
  have e: "nOutputBuffer idle_audio 0 = []" "process_audio example_env = (\<lambda>w. w)"
    by (simp_all add: idle_audio_def example_env_def)
  have d: "nOutputBuffer draining_audio 0 \<noteq> []" "outChannels (select_channels draining_audio) = 1"
    "nOutputBuffer draining_audio 0 = [1, 2]"
    by (simp_all add: draining_audio_def select_channels_def idle_audio_def Let_def)
  from C8_engine_gating[of example_env three_voltages idle_audio example_config] e(1)
  have i: "amain (nChannelProcess example_config example_env three_voltages idle_audio)
     = process_audio example_env (amain (resampleInput example_config example_env
                (populateInputBuffer example_env three_voltages (select_channels idle_audio))))"
    by blast
  from C8_engine_gating[of example_env three_voltages draining_audio example_config] d(1)
  have f1: "nChannelProcess example_config example_env three_voltages draining_audio
     = processOutputBuffer (populateInputBuffer example_env three_voltages (select_channels draining_audio))"
    and f2: "amain (nChannelProcess example_config example_env three_voltages draining_audio)
     = amain draining_audio"
    and f3: "\<forall>c. nOutputBuffer (nChannelProcess example_config example_env three_voltages draining_audio) c
               = (if (\<forall>chan<outChannels (select_channels draining_audio).
                        nOutputBuffer draining_audio chan \<noteq> [])
                     \<and> c < outChannels (select_channels draining_audio)
                  then tl (nOutputBuffer draining_audio c) else nOutputBuffer draining_audio c)"
    by blast+
  from f3 have "nOutputBuffer (nChannelProcess example_config example_env three_voltages draining_audio) 0
               = (if (\<forall>chan<outChannels (select_channels draining_audio).
                        nOutputBuffer draining_audio chan \<noteq> [])
                     \<and> 0 < outChannels (select_channels draining_audio)
                  then tl (nOutputBuffer draining_audio 0) else nOutputBuffer draining_audio 0)"
    by blast
  then have f4: "nOutputBuffer (nChannelProcess example_config example_env three_voltages draining_audio) 0
      = [2]"
    by (simp add: d)
  from i f1 f2 f4 show ?thesis by (simp only: e(2) simp_thms)
qed

section \<open>The input overload flag\<close>

subsection \<open>The overload flag after a run\<close>

lemma clip_loop_flag:
  "io_in (io (for_loop n
       (\<lambda>i w. (flag_clip K (io_in (io w) ch i) w)
                 \<lparr>flt := step i (io_in (io w) ch i) (flt (flag_clip K (io_in (io w) ch i) w))\<rparr>) w))
     = io_in (io w)
   \<and> INPUT_CLIP (io (for_loop n
       (\<lambda>i w. (flag_clip K (io_in (io w) ch i) w)
                 \<lparr>flt := step i (io_in (io w) ch i) (flt (flag_clip K (io_in (io w) ch i) w))\<rparr>) w))
     = (INPUT_CLIP (io w)
        \<or> (\<exists>i<n. INPUT_LED_CLIP_LEVEL K \<le> real_of_int (io_in (io w) ch i)))"
proof (induction n)
  case 0
  show ?case by simp
next
  case (Suc n)
  then show ?case
    by (auto simp: flag_clip_def less_Suc_eq)
qed

lemma src_loops_flag:
  "INPUT_CLIP (io (twopass_src_loop K c A ch w)) = (INPUT_CLIP (io w) \<or> lane_clipped K w ch)"
  "INPUT_CLIP (io (onepass_loop K c A j ch w)) = (INPUT_CLIP (io w) \<or> lane_clipped K w ch)"
  "INPUT_CLIP (io (bpre_loop K c A j ch w)) = (INPUT_CLIP (io w) \<or> lane_clipped K w ch)"
  by (simp_all add: twopass_src_loop_def onepass_loop_def bpre_loop_def Let_def lane_clipped_def
        clip_loop_flag)

lemma other_steps_flag:
  "INPUT_CLIP (io (twopass_dest_loop K c A ch w)) = INPUT_CLIP (io w)"
  "INPUT_CLIP (io (set_voct ch v w)) = INPUT_CLIP (io w)"
  "INPUT_CLIP (io (glide_voct ch v w)) = INPUT_CLIP (io w)"
  by (simp_all add: twopass_dest_loop_def set_voct_def glide_voct_def for_loop_frame)

lemma lane_clipped_reads:
  "filter_reads v = filter_reads w \<Longrightarrow> lane_clipped K v = lane_clipped K w"
  using reads_fields[of v w] by (simp add: lane_clipped_def fun_eq_iff)

lemma lane_clipped_steps:
  "lane_clipped K (set_voct ch v w) = lane_clipped K w"
  "lane_clipped K (w\<lparr>io := (io w)\<lparr>INPUT_CLIP := b\<rparr>\<rparr>) = lane_clipped K w"
  by (rule lane_clipped_reads, simp add: loops_reads clear_flag_reads)+


lemma twopass_channel_flag:
  "INPUT_CLIP (io (twopass_channel K T ch w)) = (INPUT_CLIP (io w) \<or> lane_clipped K w ch)"
  by (simp add: twopass_channel_def Let_def src_loops_flag other_steps_flag)

lemma row_flag:
  "INPUT_CLIP (io (onepass_row K T j w))
     = (INPUT_CLIP (io w)
        \<or> (j < NUM_CHANNELS \<or> motion_morphpos (rotation w) (j - NUM_CHANNELS) \<noteq> 0)
          \<and> lane_clipped K w (if j < NUM_CHANNELS then j else j - NUM_CHANNELS))"
  "INPUT_CLIP (io (bpre_row K T j w))
     = (INPUT_CLIP (io w)
        \<or> (j < NUM_CHANNELS \<or> motion_morphpos (rotation w) (j - NUM_CHANNELS) \<noteq> 0)
          \<and> lane_clipped K w (if j < NUM_CHANNELS then j else j - NUM_CHANNELS))"
  by (cases "j < NUM_CHANNELS";
      simp add: onepass_row_def bpre_row_def Let_def src_loops_flag other_steps_flag
        lane_clipped_steps)+

lemma twopass_loop_flag:
  "INPUT_CLIP (io (for_loop n (twopass_channel K T) w))
     = (INPUT_CLIP (io w) \<or> (\<exists>ch<n. lane_clipped K w ch))"
proof (induction n)
  case 0
  show ?case by simp
next
  case (Suc n)
  have "filter_reads (for_loop n (twopass_channel K T) w) = filter_reads w"
    by (rule for_loop_frame) (rule twopass_channel_reads)
  then have l: "lane_clipped K (for_loop n (twopass_channel K T) w) = lane_clipped K w"
    by (rule lane_clipped_reads)
  show ?case
    by (auto simp: twopass_channel_flag Suc.IH l less_Suc_eq)
qed

lemma rows_flag:
  assumes r: "\<And>j v. filter_reads (row j v) = filter_reads v"
    and f: "\<And>j v. INPUT_CLIP (io (row j v))
       = (INPUT_CLIP (io v)
          \<or> (j < NUM_CHANNELS \<or> motion_morphpos (rotation v) (j - NUM_CHANNELS) \<noteq> 0)
            \<and> lane_clipped K v (if j < NUM_CHANNELS then j else j - NUM_CHANNELS))"
  shows "INPUT_CLIP (io (for_loop n row w))
     = (INPUT_CLIP (io w)
        \<or> (\<exists>j<n. (j < NUM_CHANNELS \<or> motion_morphpos (rotation w) (j - NUM_CHANNELS) \<noteq> 0)
                  \<and> lane_clipped K w (if j < NUM_CHANNELS then j else j - NUM_CHANNELS)))"
proof (induction n)
  case 0
  show ?case by simp
next
  case (Suc n)
  have fr: "filter_reads (for_loop n row w) = filter_reads w"
    by (rule for_loop_frame) (rule r)
  have l: "lane_clipped K (for_loop n row w) = lane_clipped K w"
    using fr by (rule lane_clipped_reads)
  have m: "rotation (for_loop n row w) = rotation w"
    using reads_fields[OF fr] by blast
  show ?case
    unfolding for_loop.simps f Suc.IH l m
    by (auto simp: less_Suc_eq)
qed

lemma twelve_rows:
  "(\<exists>j<NUM_CHANNELS * 2. (j < NUM_CHANNELS \<or> P j) \<and> L (if j < NUM_CHANNELS then j else j - NUM_CHANNELS))
     = (\<exists>ch<NUM_CHANNELS. L ch)"
proof
  assume "\<exists>j<NUM_CHANNELS * 2. (j < NUM_CHANNELS \<or> P j) \<and> L (if j < NUM_CHANNELS then j else j - NUM_CHANNELS)"
  then obtain j where j: "j < NUM_CHANNELS * 2" "L (if j < NUM_CHANNELS then j else j - NUM_CHANNELS)"
    by blast
  from j(1) have "(if j < NUM_CHANNELS then j else j - NUM_CHANNELS) < NUM_CHANNELS"
    by (simp add: NUM_CHANNELS_def) arith
  with j(2) show "\<exists>ch<NUM_CHANNELS. L ch" by blast
next
  assume "\<exists>ch<NUM_CHANNELS. L ch"
  then obtain ch where "ch < NUM_CHANNELS" "L ch" by blast
  then have "ch < NUM_CHANNELS * 2 \<and> (ch < NUM_CHANNELS \<or> P ch)
      \<and> L (if ch < NUM_CHANNELS then ch else ch - NUM_CHANNELS)"
    by simp
  then show "\<exists>j<NUM_CHANNELS * 2. (j < NUM_CHANNELS \<or> P j) \<and> L (if j < NUM_CHANNELS then j else j - NUM_CHANNELS)"
    by blast
qed

lemma rows_clipped:
  assumes r: "\<And>j v. filter_reads (row j v) = filter_reads v"
    and f: "\<And>j v. INPUT_CLIP (io (row j v))
       = (INPUT_CLIP (io v)
          \<or> (j < NUM_CHANNELS \<or> motion_morphpos (rotation v) (j - NUM_CHANNELS) \<noteq> 0)
            \<and> lane_clipped K v (if j < NUM_CHANNELS then j else j - NUM_CHANNELS))"
  shows "INPUT_CLIP (io (for_loop (NUM_CHANNELS * 2) row (w\<lparr>io := (io w)\<lparr>INPUT_CLIP := False\<rparr>\<rparr>)))
     = input_clipped K w"
proof -
  let ?w = "w\<lparr>io := (io w)\<lparr>INPUT_CLIP := False\<rparr>\<rparr>"
  have "INPUT_CLIP (io (for_loop (NUM_CHANNELS * 2) row ?w))
      = (INPUT_CLIP (io ?w)
        \<or> (\<exists>j<NUM_CHANNELS * 2. (j < NUM_CHANNELS \<or> motion_morphpos (rotation ?w) (j - NUM_CHANNELS) \<noteq> 0)
                  \<and> lane_clipped K ?w (if j < NUM_CHANNELS then j else j - NUM_CHANNELS)))"
    by (rule rows_flag[OF r f])
  also have "\<dots> = (INPUT_CLIP (io ?w) \<or> (\<exists>ch<NUM_CHANNELS. lane_clipped K ?w ch))"
    by (simp only: twelve_rows[of "\<lambda>j. motion_morphpos (rotation ?w) (j - NUM_CHANNELS) \<noteq> 0"
          "lane_clipped K ?w"])
  also have "\<dots> = input_clipped K w"
    by (simp add: input_clipped_def lane_clipped_steps)
  finally show ?thesis .
qed

lemma run_filter_flag: "INPUT_CLIP (io (run_filter K T w)) = input_clipped K w"
proof -
  have two: "INPUT_CLIP (io (filter_twopass K T w)) = input_clipped K w"
    by (simp add: filter_twopass_def twopass_loop_flag input_clipped_def lane_clipped_steps)
  have one: "INPUT_CLIP (io (filter_onepass K T w)) = input_clipped K w"
    unfolding filter_onepass_def by (rule rows_clipped[OF onepass_row_reads row_flag(1)])
  have bp: "INPUT_CLIP (io (filter_bpre K T w)) = input_clipped K w"
    unfolding filter_bpre_def by (rule rows_clipped[OF bpre_row_reads row_flag(2)])
  show ?thesis
    by (simp add: run_filter_def two one bp)
qed

subsection \<open>The run does not depend on the threshold or on the old flag\<close>

lemma sans_fields:
  "flt (sans_clip w) = flt w"
  "q (sans_clip w) = q w"
  "tuning (sans_clip w) = tuning w"
  "rotation (sans_clip w) = rotation w"
  "envelope (sans_clip w) = envelope w"
  "levels (sans_clip w) = levels w"
  "io_in (io (sans_clip w)) = io_in (io w)"
  "FREQSCALE (io (sans_clip w)) = FREQSCALE (io w)"
  "GLIDE_SWITCH (io (sans_clip w)) = GLIDE_SWITCH (io w)"
  "sans_clip (sans_clip w) = sans_clip w"
  "filter_reads (sans_clip w) = filter_reads w"
  by (simp_all add: sans_clip_def filter_reads_def)

lemma sans_steps:
  "sans_clip (flag_clip K x w) = sans_clip w"
  "sans_clip (w\<lparr>flt := f\<rparr>) = (sans_clip w)\<lparr>flt := f\<rparr>"
  "sans_clip (set_voct ch v w) = set_voct ch v (sans_clip w)"
  "sans_clip (glide_voct ch v w) = glide_voct ch v (sans_clip w)"
  "sans_clip (w\<lparr>io := (io w)\<lparr>INPUT_CLIP := b\<rparr>\<rparr>) = sans_clip w"
  by (simp_all add: sans_clip_def flag_clip_def set_voct_def glide_voct_def)

lemma sans_sample_loop:
  "sans_clip (sample_loop n step ch w) = sample_loop n step ch (sans_clip w)"
  unfolding sample_loop_def
proof (induction n)
  case 0
  show ?case by simp
next
  case (Suc n)
  show ?case
    by (simp add: Suc.IH[symmetric] sans_steps sans_fields)
qed

lemma sans_clip_loop:
  "sans_clip (for_loop n
       (\<lambda>i w. (flag_clip K (io_in (io w) ch i) w)
                 \<lparr>flt := step i (io_in (io w) ch i) (flt (flag_clip K (io_in (io w) ch i) w))\<rparr>) w)
     = sample_loop n step ch (sans_clip w)"
  unfolding sample_loop_def
proof (induction n)
  case 0
  show ?case by simp
next
  case (Suc n)
  show ?case
    by (simp add: Suc.IH[symmetric] sans_steps sans_fields flag_clip_frame)
qed

lemma sans_loops:
  "sans_clip (twopass_src_loop K c A ch w)
     = sample_loop (NUM_SAMPLES K) (twopass_sample c A ch) ch (sans_clip w)"
  "sans_clip (twopass_dest_loop K c A ch w)
     = sample_loop (NUM_SAMPLES K) (twopass_sample c A (ch + 6)) ch (sans_clip w)"
  "sans_clip (onepass_loop K c A j ch w)
     = sample_loop (NUM_SAMPLES K) (onepass_sample c A j) ch (sans_clip w)"
  "sans_clip (bpre_loop K c A j ch w)
     = sample_loop (NUM_SAMPLES K) (bpre_sample c A j) ch (sans_clip w)"
proof -
  show "sans_clip (twopass_src_loop K c A ch w)
     = sample_loop (NUM_SAMPLES K) (twopass_sample c A ch) ch (sans_clip w)"
    by (simp add: twopass_src_loop_def Let_def sans_clip_loop)
  have "twopass_dest_loop K c A ch w
      = sample_loop (NUM_SAMPLES K) (twopass_sample c A (ch + 6)) ch w"
    by (simp add: twopass_dest_loop_def sample_loop_def)
  then show "sans_clip (twopass_dest_loop K c A ch w)
     = sample_loop (NUM_SAMPLES K) (twopass_sample c A (ch + 6)) ch (sans_clip w)"
    by (simp add: sans_sample_loop)
  show "sans_clip (onepass_loop K c A j ch w)
     = sample_loop (NUM_SAMPLES K) (onepass_sample c A j) ch (sans_clip w)"
    by (simp add: onepass_loop_def Let_def sans_clip_loop)
  show "sans_clip (bpre_loop K c A j ch w)
     = sample_loop (NUM_SAMPLES K) (bpre_sample c A j) ch (sans_clip w)"
    by (simp add: bpre_loop_def Let_def sans_clip_loop)
qed

lemma coefs_reads:
  assumes "filter_reads v = filter_reads w"
  shows "twopass_coefs K T v ch = twopass_coefs K T w ch"
    and "twopass_dest_coefs K T v ch c = twopass_dest_coefs K T w ch c"
    and "onepass_coefs K T v ch s n = onepass_coefs K T w ch s n"
    and "bpre_coefs K T v ch s n = bpre_coefs K T w ch s n"
  using reads_fields[OF assms]
  by (simp_all add: twopass_coefs_def twopass_dest_coefs_def onepass_coefs_def bpre_coefs_def
        freq_coef_def Let_def)

lemma coefs_threshold:
  "twopass_coefs (K\<lparr>INPUT_LED_CLIP_LEVEL := t\<rparr>) T w ch = twopass_coefs K T w ch"
  "twopass_dest_coefs (K\<lparr>INPUT_LED_CLIP_LEVEL := t\<rparr>) T w ch c = twopass_dest_coefs K T w ch c"
  "onepass_coefs (K\<lparr>INPUT_LED_CLIP_LEVEL := t\<rparr>) T w ch s n = onepass_coefs K T w ch s n"
  "bpre_coefs (K\<lparr>INPUT_LED_CLIP_LEVEL := t\<rparr>) T w ch s n = bpre_coefs K T w ch s n"
  "hist_addr (K\<lparr>INPUT_LED_CLIP_LEVEL := t\<rparr>) = hist_addr K"
  by (simp_all add: twopass_coefs_def twopass_dest_coefs_def onepass_coefs_def bpre_coefs_def
        freq_coef_def Let_def hist_addr_def fun_eq_iff)

lemmas step_fields =
  reads_fields[OF loops_reads(1)] reads_fields[OF loops_reads(2)] reads_fields[OF loops_reads(3)]
  reads_fields[OF loops_reads(4)] reads_fields[OF loops_reads(5)] reads_fields[OF loops_reads(6)]

lemmas coefs_steps =
  coefs_reads[OF loops_reads(1)] coefs_reads[OF loops_reads(2)] coefs_reads[OF loops_reads(3)]
  coefs_reads[OF loops_reads(4)] coefs_reads[OF loops_reads(5)] coefs_reads[OF loops_reads(6)]
  coefs_reads[OF sans_fields(11)]

lemma twopass_channel_sans:
  "sans_clip (twopass_channel (K\<lparr>INPUT_LED_CLIP_LEVEL := t\<rparr>) T ch w)
     = sans_clip (twopass_channel K T ch w)"
  "sans_clip (twopass_channel K T ch (sans_clip w)) = sans_clip (twopass_channel K T ch w)"
  by (simp_all add: twopass_channel_def Let_def if_distrib[of sans_clip] sans_steps sans_loops
        sans_fields step_fields coefs_steps coefs_threshold)

lemma onepass_row_sans:
  "sans_clip (onepass_row (K\<lparr>INPUT_LED_CLIP_LEVEL := t\<rparr>) T j w) = sans_clip (onepass_row K T j w)"
  "sans_clip (onepass_row K T j (sans_clip w)) = sans_clip (onepass_row K T j w)"
  by (simp_all add: onepass_row_def Let_def if_distrib[of sans_clip] sans_steps sans_loops
        sans_fields step_fields coefs_steps coefs_threshold)

lemma bpre_row_sans:
  "sans_clip (bpre_row (K\<lparr>INPUT_LED_CLIP_LEVEL := t\<rparr>) T j w) = sans_clip (bpre_row K T j w)"
  "sans_clip (bpre_row K T j (sans_clip w)) = sans_clip (bpre_row K T j w)"
  by (simp_all add: bpre_row_def Let_def if_distrib[of sans_clip] sans_steps sans_loops
        sans_fields step_fields coefs_steps coefs_threshold)

text \<open>A loop whose body is independent of the threshold and of the flag is so itself.\<close>

lemma for_loop_sans:
  assumes F: "\<And>i v. sans_clip (body' i v) = sans_clip (body i v)"
    and G: "\<And>i v. sans_clip (body i (sans_clip v)) = sans_clip (body i v)"
  shows "sans_clip (for_loop n body' w) = sans_clip (for_loop n body w)"
proof (induction n)
  case 0
  show ?case by simp
next
  case (Suc n)
  have "sans_clip (for_loop (Suc n) body' w) = sans_clip (body n (for_loop n body' w))"
    by (simp add: F)
  also have "\<dots> = sans_clip (body n (sans_clip (for_loop n body' w)))"
    by (simp only: G)
  also have "\<dots> = sans_clip (body n (sans_clip (for_loop n body w)))"
    by (simp only: Suc.IH)
  also have "\<dots> = sans_clip (for_loop (Suc n) body w)"
    by (simp add: G)
  finally show ?case .
qed

lemma run_filter_sans:
  "sans_clip (run_filter (K\<lparr>INPUT_LED_CLIP_LEVEL := t\<rparr>) T w) = sans_clip (run_filter K T w)"
proof -
  have two: "sans_clip (filter_twopass (K\<lparr>INPUT_LED_CLIP_LEVEL := t\<rparr>) T w)
      = sans_clip (filter_twopass K T w)"
    unfolding filter_twopass_def by (rule for_loop_sans) (rule twopass_channel_sans)+
  have one: "sans_clip (filter_onepass (K\<lparr>INPUT_LED_CLIP_LEVEL := t\<rparr>) T w)
      = sans_clip (filter_onepass K T w)"
    unfolding filter_onepass_def by (rule for_loop_sans) (rule onepass_row_sans)+
  have bp: "sans_clip (filter_bpre (K\<lparr>INPUT_LED_CLIP_LEVEL := t\<rparr>) T w)
      = sans_clip (filter_bpre K T w)"
    unfolding filter_bpre_def by (rule for_loop_sans) (rule bpre_row_sans)+
  show ?thesis
    by (simp add: run_filter_def two one bp)
qed

lemma run_filter_reset:
  "run_filter K T (w\<lparr>io := (io w)\<lparr>INPUT_CLIP := b\<rparr>\<rparr>) = run_filter K T w"
  by (simp add: run_filter_def filter_twopass_def filter_onepass_def filter_bpre_def)

text \<open>
  Claim C9: after a block is filtered, \<open>INPUT_CLIP\<close> holds exactly when some sample
  of some channel's input block reaches \<open>INPUT_LED_CLIP_LEVEL\<close>; everything else in
  the state after the run (histories, \<open>filter_out\<close>, pitch outputs) is the same for
  every value of the threshold, so samples at or above it are filtered as any other; and
  the run does not depend on the flag's old value, which it resets first.
\<close>

theorem C9_input_clip_flag:
  "INPUT_CLIP (io (run_filter K T w)) = input_clipped K w
   \<and> sans_clip (run_filter (K\<lparr>INPUT_LED_CLIP_LEVEL := t\<rparr>) T w) = sans_clip (run_filter K T w)
   \<and> run_filter K T (w\<lparr>io := (io w)\<lparr>INPUT_CLIP := b\<rparr>\<rparr>) = run_filter K T w"
  using run_filter_flag run_filter_sans run_filter_reset by blast

theorem C9_witness:
  "INPUT_CLIP (io (run_filter example_config example_tables loud_world))
   \<and> \<not> INPUT_CLIP (io (run_filter example_config example_tables example_world))
   \<and> sans_clip (run_filter (example_config\<lparr>INPUT_LED_CLIP_LEVEL := 5000\<rparr>) example_tables loud_world)
       = sans_clip (run_filter example_config example_tables loud_world)"
proof -
  have "2 < NUM_CHANNELS \<and> lane_clipped example_config loud_world 2"
    unfolding lane_clipped_def
    by (simp add: NUM_CHANNELS_def example_config_def loud_world_def example_world_def quiet_io_def
          exI[of _ 5])
  then have loud: "input_clipped example_config loud_world"
    unfolding input_clipped_def by blast
  have quiet: "\<not> input_clipped example_config example_world"
    by (simp add: input_clipped_def lane_clipped_def example_config_def example_world_def quiet_io_def)
  show ?thesis
    using C9_input_clip_flag[of example_config example_tables loud_world 5000]
      C9_input_clip_flag[of example_config example_tables example_world] loud quiet
    by blast
qed

end
